theory Spec2Isabelle
  imports Main
begin

section \<open>Fetch-style values\<close>

text \<open>
  The adapter works on the values of the Fetch API. A \<open>Headers\<close> object is a list of
  name/value pairs whose names are already lower-cased by the platform; \<open>get\<close>, \<open>has\<close>,
  \<open>set\<close> and \<open>delete\<close> are the methods the source calls. \<open>set\<close> overwrites the first
  entry of that name and drops any other, \<open>delete\<close> drops them all.
\<close>

type_synonym headers = "(string \<times> string) list"

definition headers_get :: "headers \<Rightarrow> string \<Rightarrow> string option" where
  "headers_get h k = map_of h k"

definition headers_has :: "headers \<Rightarrow> string \<Rightarrow> bool" where
  "headers_has h k = (map_of h k \<noteq> None)"

definition headers_delete :: "headers \<Rightarrow> string \<Rightarrow> headers" where
  "headers_delete h k = filter (\<lambda>(n, v). n \<noteq> k) h"

fun headers_set :: "headers \<Rightarrow> string \<Rightarrow> string \<Rightarrow> headers" where
  "headers_set [] k v = [(k, v)]"
| "headers_set ((n, w) # h) k v =
     (if n = k then (k, v) # headers_delete h k else (n, w) # headers_set h k v)"

text \<open>JavaScript truthiness of a possibly absent string: absent and empty are both falsy.\<close>

fun truthy :: "string option \<Rightarrow> bool" where
  "truthy None = False"
| "truthy (Some s) = (s \<noteq> [])"

text \<open>\<open>String.prototype.startsWith\<close> and \<open>String.prototype.includes\<close>.\<close>

fun startsWith :: "string \<Rightarrow> string \<Rightarrow> bool" where
  "startsWith s [] = True"
| "startsWith [] (c # p) = False"
| "startsWith (d # s) (c # p) = (d = c \<and> startsWith s p)"

fun str_includes :: "string \<Rightarrow> string \<Rightarrow> bool" where
  "str_includes [] p = startsWith [] p"
| "str_includes (d # s) p = (startsWith (d # s) p \<or> str_includes s p)"

text \<open>
  A parsed http(s) \<open>URL\<close>. \<open>origin\<close> is scheme, host and port; \<open>toString\<close> (the href)
  also carries the credentials, the path, the query and the fragment.
\<close>

record url =
  url_scheme :: string
  url_userinfo :: string
  url_host :: string
  url_pathname :: string
  url_search :: string
  url_hash :: string

definition url_origin :: "url \<Rightarrow> string" where
  "url_origin u = url_scheme u @ ''://'' @ url_host u"

definition url_toString :: "url \<Rightarrow> string" where
  "url_toString u =
     url_scheme u @ ''://'' @ url_userinfo u @ url_host u @ url_pathname u @ url_search u @ url_hash u"

text \<open>
  A \<open>Request\<close>: its \<open>url\<close> is always an absolute, serialised URL, so it is kept parsed.
  \<open>req_body = None\<close> is a null body.
\<close>

record request =
  req_url :: url
  req_method :: string
  req_headers :: headers
  req_body :: "string option"
  req_bodyUsed :: bool

record response =
  resp_status :: nat
  resp_headers :: headers
  resp_body :: string

text \<open>What a rejected promise or a thrown exception carries.\<close>

datatype js_error = InvalidURL | InvalidJSON | TypeError | HeadersSent | Rejection string

text \<open>The part of the framework configuration the adapter reads.\<close>

record next_config =
  basePath :: "string option"
  i18n_locales :: "string list option"

section \<open>The server handler\<close>

text \<open>
  The second module of the source is the server handler. It keeps two module-scoped
  variables, \<open>nextHandler\<close> and \<open>nextConfig\<close>, both unset when the module is loaded.

  \<open>toReqRes\<close> gives the handler a Node-style response object. The framework handler
  writes to it in place, so whatever it did before it threw is still there when the
  \<open>catch\<close> block runs. The object goes through three phases: nothing sent yet; the head
  (status line and headers) sent; ended. The head goes out with the status code and the
  headers the object has at that moment, and what is assigned or set later no longer
  reaches the client.
\<close>

datatype phase =
    Unsent
  | Sent nat headers
  | Finished nat headers

record server_response =
  statusCode :: nat
  sr_headers :: headers
  sr_body :: string
  sr_phase :: phase

definition fresh_response :: server_response where
  "fresh_response = \<lparr>statusCode = 200, sr_headers = [], sr_body = [], sr_phase = Unsent\<rparr>"

text \<open>
  \<open>res.end(data)\<close>: sends the head if it is still unsent, appends \<open>data\<close> to the body and
  ends the response. On a response that has ended it writes nothing.
\<close>

definition res_end :: "string \<Rightarrow> server_response \<Rightarrow> server_response" where
  "res_end data r =
     (case sr_phase r of
        Unsent \<Rightarrow>
          r\<lparr>sr_body := sr_body r @ data, sr_phase := Finished (statusCode r) (sr_headers r)\<rparr>
      | Sent st hs \<Rightarrow> r\<lparr>sr_body := sr_body r @ data, sr_phase := Finished st hs\<rparr>
      | Finished st hs \<Rightarrow> r)"

text \<open>\<open>res.setHeader(name, value)\<close> throws once the head has been sent.\<close>

definition res_setHeader :: "string \<Rightarrow> string \<Rightarrow> server_response \<Rightarrow> js_error + server_response" where
  "res_setHeader k v r =
     (case sr_phase r of
        Unsent \<Rightarrow> Inr (r\<lparr>sr_headers := headers_set (sr_headers r) k v\<rparr>)
      | Sent st hs \<Rightarrow> Inl HeadersSent
      | Finished st hs \<Rightarrow> Inl HeadersSent)"

fun set_headers :: "(string \<times> string) list \<Rightarrow> server_response \<Rightarrow> js_error + server_response" where
  "set_headers [] r = Inr r"
| "set_headers ((k, v) # ws) r =
     (case res_setHeader k v r of
        Inl e \<Rightarrow> Inl e
      | Inr r1 \<Rightarrow> set_headers ws r1)"

text \<open>
  \<open>toComputeResponse(res)\<close> is a promise of the \<open>Response\<close> made from the head as it was
  sent and from the body written. It does not settle (\<open>None\<close>) while the head is unsent.
\<close>

definition toComputeResponse :: "server_response \<Rightarrow> response option" where
  "toComputeResponse r =
     (case sr_phase r of
        Unsent \<Rightarrow> None
      | Sent st hs \<Rightarrow> Some \<lparr>resp_status = st, resp_headers = hs, resp_body = sr_body r\<rparr>
      | Finished st hs \<Rightarrow> Some \<lparr>resp_status = st, resp_headers = hs, resp_body = sr_body r\<rparr>)"

text \<open>
  A call of the framework handler either resolves or rejects; both leave the response
  object in some state.
\<close>

datatype handler_outcome =
    Resolved server_response
  | Rejected js_error server_response

type_synonym request_handler = "request \<Rightarrow> server_response \<Rightarrow> handler_outcome"

record module_state =
  nextHandler :: "request_handler option"
  nextConfig :: "next_config option"

definition initial_state :: module_state where
  "initial_state = \<lparr>nextHandler = None, nextConfig = None\<rparr>"

text \<open>
  What the two awaited bootstrap calls yield during one invocation: the run
  configuration read by \<open>getRunConfig()\<close> and the first request handler returned by
  \<open>getRequestHandlers(...)\<close>. Either promise may reject.
\<close>

record bootstrap =
  getRunConfig :: "js_error + next_config"
  getRequestHandlers :: "js_error + request_handler"

text \<open>
  The helpers of \<open>helpers/headers.js\<close> are not part of the sources at hand. The
  specification lists them under header signalling (cache-control and vary headers), so
  each is a parameter that either throws or names the headers it sets, given the
  response object (and the request and the configuration) it is called with. The
  headers are then set on the response object with \<open>res.setHeader\<close>.
\<close>

record server_helpers =
  setCacheControlHeaders :: "server_response \<Rightarrow> js_error + (string \<times> string) list"
  setVaryHeaders ::
    "server_response \<Rightarrow> request \<Rightarrow> next_config option \<Rightarrow> js_error + (string \<times> string) list"

definition run_helper ::
  "js_error + (string \<times> string) list \<Rightarrow> server_response \<Rightarrow> js_error + server_response" where
  "run_helper calls r =
     (case calls of
        Inl e \<Rightarrow> Inl e
      | Inr ws \<Rightarrow> set_headers ws r)"

datatype server_event =
    AssignNextConfig next_config
  | SetRunConfig next_config
  | AssignNextHandler
  | CallNextHandler

text \<open>How one invocation ends: with a response, with a rejection, or never.\<close>

datatype server_result =
    Responds response
  | Rejects js_error
  | NeverSettles

text \<open>
  Lines 223 to 237: the lazy bootstrap, guarded by \<open>!nextHandler\<close> alone. A rejected
  promise leaves the function at that point, with the assignments made so far in place.
\<close>

definition initialise ::
  "bootstrap \<Rightarrow> module_state \<Rightarrow> module_state \<times> server_event list \<times> js_error option" where
  "initialise B s =
     (case nextHandler s of
        Some h \<Rightarrow> (s, [], None)
      | None \<Rightarrow>
          (case getRunConfig B of
             Inl e \<Rightarrow> (s, [], Some e)
           | Inr c \<Rightarrow>
               (case getRequestHandlers B of
                  Inl e \<Rightarrow>
                    (s\<lparr>nextConfig := Some c\<rparr>, [AssignNextConfig c, SetRunConfig c], Some e)
                | Inr h \<Rightarrow>
                    (s\<lparr>nextConfig := Some c, nextHandler := Some h\<rparr>,
                     [AssignNextConfig c, SetRunConfig c, AssignNextHandler], None))))"

text \<open>
  Lines 239 to 248: the call of the framework handler inside \<open>try\<close>. The result is the
  response object as the \<open>catch\<close> block leaves it: \<open>statusCode\<close> is assigned and the
  response is ended, whatever had been sent before. Calling an unset \<open>nextHandler\<close> is a
  \<open>TypeError\<close> raised inside the \<open>try\<close>, so it is caught as well.
\<close>

definition call_handler :: "request_handler option \<Rightarrow> request \<Rightarrow> server_response" where
  "call_handler handler req =
     (case handler of
        None \<Rightarrow> res_end ''Internal Server Error'' (fresh_response\<lparr>statusCode := 500\<rparr>)
      | Some h \<Rightarrow>
          (case h req fresh_response of
             Resolved r \<Rightarrow> r
           | Rejected e r \<Rightarrow> res_end ''Internal Server Error'' (r\<lparr>statusCode := 500\<rparr>)))"

text \<open>
  Lines 254 to 257, outside the \<open>try\<close>: the two helpers run on the response object as it
  is by then, and an exception of theirs rejects the invocation.
\<close>

definition finish_response ::
  "server_helpers \<Rightarrow> request \<Rightarrow> next_config option \<Rightarrow> server_response \<Rightarrow> server_result" where
  "finish_response H request cfg res =
     (case run_helper (setCacheControlHeaders H res) res of
        Inl e \<Rightarrow> Rejects e
      | Inr res1 \<Rightarrow>
          (case run_helper (setVaryHeaders H res1 request cfg) res1 of
             Inl e \<Rightarrow> Rejects e
           | Inr res2 \<Rightarrow>
               (case toComputeResponse res2 of
                  None \<Rightarrow> NeverSettles
                | Some response \<Rightarrow> Responds response)))"

text \<open>The exported handler, lines 222 to 258.\<close>

definition server_handler ::
  "server_helpers \<Rightarrow> bootstrap \<Rightarrow> module_state \<Rightarrow> request \<Rightarrow>
     module_state \<times> server_event list \<times> server_result" where
  "server_handler H B s request =
     (case initialise B s of
        (s1, evs, Some e) \<Rightarrow> (s1, evs, Rejects e)
      | (s1, evs, None) \<Rightarrow>
          (let res = call_handler (nextHandler s1) request
           in (s1, evs @ [CallNextHandler],
               finish_response H request (nextConfig s1) res)))"

text \<open>A runtime instance serves its invocations one after the other on the same module state.\<close>

fun run_invocations ::
  "server_helpers \<Rightarrow> (bootstrap \<times> request) list \<Rightarrow> module_state \<Rightarrow>
     module_state \<times> server_event list" where
  "run_invocations H [] s = (s, [])"
| "run_invocations H ((B, rq) # rest) s =
     (case server_handler H B s rq of
        (s1, evs, out) \<Rightarrow>
          (case run_invocations H rest s1 of (s2, evs2) \<Rightarrow> (s2, evs @ evs2)))"

fun is_assignment :: "server_event \<Rightarrow> bool" where
  "is_assignment (AssignNextConfig c) = True"
| "is_assignment AssignNextHandler = True"
| "is_assignment e = False"

fun is_config_assignment :: "server_event \<Rightarrow> bool" where
  "is_config_assignment (AssignNextConfig c) = True"
| "is_config_assignment e = False"

subsection \<open>Sample values\<close>

definition sample_url :: url where
  "sample_url =
     \<lparr>url_scheme = ''https'', url_userinfo = [], url_host = ''shop.example'',
      url_pathname = ''/cart'', url_search = [], url_hash = []\<rparr>"

definition sample_request :: request where
  "sample_request =
     \<lparr>req_url = sample_url, req_method = ''GET'',
      req_headers = [(''accept'', ''text/html''), (''x-nf-request-id'', ''01HZ'')],
      req_body = None, req_bodyUsed = False\<rparr>"

text \<open>Helpers that set a header each, and helpers that find nothing to set.\<close>

definition sample_helpers :: server_helpers where
  "sample_helpers =
     \<lparr>setCacheControlHeaders = (\<lambda>res. Inr [(''cache-control'', ''public, max-age=0'')]),
      setVaryHeaders = (\<lambda>res rq cfg. Inr [(''netlify-vary'', ''cookie=__prerender_bypass'')])\<rparr>"


definition sample_config :: next_config where
  "sample_config = \<lparr>basePath = None, i18n_locales = Some [''en'', ''fr'']\<rparr>"

definition other_config :: next_config where
  "other_config = \<lparr>basePath = Some ''/shop'', i18n_locales = None\<rparr>"



definition ok_handler :: request_handler where
  "ok_handler rq res = Resolved (res_end ''ok'' res)"

text \<open>A first start in which the framework finds no build output, and one that works.\<close>

definition failing_bootstrap :: bootstrap where
  "failing_bootstrap =
     \<lparr>getRunConfig = Inr sample_config, getRequestHandlers = Inl (Rejection ''no build output'')\<rparr>"

definition working_bootstrap :: bootstrap where
  "working_bootstrap = \<lparr>getRunConfig = Inr other_config, getRequestHandlers = Inr ok_handler\<rparr>"

section \<open>The edge response builder\<close>

text \<open>
  The first module of the source is \<open>buildResponse\<close>. Besides the platform (\<open>URL\<close>,
  \<open>fetch\<close>, \<open>context.next\<close>, \<open>JSON\<close>, \<open>String.prototype.trim\<close>, the HTML rewriter) it
  calls helpers of \<open>util.ts\<close>,
  \<open>headers.ts\<close> and \<open>middleware.ts\<close>, which are not part of the sources at hand. All of
  them are parameters of the model, collected in one record. An awaited call that can
  reject returns a sum, \<open>new URL\<close> and \<open>JSON.parse\<close> return \<open>None\<close> where they throw.
  Logging is left out: it changes nothing the function returns or sends.
\<close>

datatype json =
    JUndefined
  | JNull
  | JBool bool
  | JNum int
  | JStr string
  | JArr "json list"
  | JObj "(string \<times> json) list"

record path_locale =
  detectedLocale :: "string option"
  pl_pathname :: string

record text_chunk =
  chunk_text :: string
  lastInTextNode :: bool

datatype chunk_action = Keep | Remove | Replace string

type_synonym text_handler = "string \<Rightarrow> text_chunk \<Rightarrow> string \<times> chunk_action"

record platform =
  resolveURL :: "string \<Rightarrow> url \<Rightarrow> url option"
  relativizeURL :: "string \<Rightarrow> string \<Rightarrow> string"
  normalizeLocalePath :: "string \<Rightarrow> string list option \<Rightarrow> path_locale"
  normalizeDataUrl :: "string \<Rightarrow> string"
  rewriteDataPath :: "string \<Rightarrow> string \<Rightarrow> string option \<Rightarrow> string"
  updateModifiedHeaders :: "headers \<Rightarrow> headers \<Rightarrow> headers \<times> headers"
  addMiddlewareHeaders :: "response \<Rightarrow> response \<Rightarrow> response"
  fetch :: "request \<Rightarrow> js_error + response"
  context_next :: "js_error + response"
  string_trim :: "string \<Rightarrow> string"
  json_parse :: "string \<Rightarrow> json option"
  json_stringify :: "json \<Rightarrow> string"
  html_transform :: "text_handler option \<Rightarrow> (string \<times> string) list \<Rightarrow> response \<Rightarrow> response"

text \<open>
  A \<open>MiddlewareResponse\<close> wraps the origin response and carries the transforms and
  element handlers the middleware registered. \<open>cookies_headers\<close> is
  \<open>response.cookies._headers\<close>, which may be missing.
\<close>

record mw_response =
  originResponse :: response
  mw_headers :: headers
  cookies_headers :: "headers option"
  dataTransforms :: "(json \<Rightarrow> json) list"
  elementHandlers :: "(string \<times> string) list"

datatype handler_response =
    PlainResponse response
  | MiddlewareResponse mw_response

text \<open>
  \<open>result.response\<close> is either a response, or the \<open>MiddlewareRequest\<close> itself: its
  headers, and what its \<open>next()\<close> resolves to given them.
\<close>

datatype middleware_result =
    Direct handler_response
  | MiddlewareRequest headers "headers \<Rightarrow> js_error + handler_response"

record build_options =
  opt_request :: request
  opt_result :: middleware_result
  opt_nextConfig :: "next_config option"
  opt_requestLocale :: "string option"

datatype effect =
    Fetch request
  | ContextNext
  | MiddlewareNext

datatype outcome =
    Returned response
  | ReturnedVoid
  | Thrown js_error

text \<open>
  What one call leaves behind: what it returned, the calls it made to the outside in
  order, and the headers of the caller's request object, which it mutates.
\<close>

record build_result =
  br_outcome :: outcome
  br_effects :: "effect list"
  br_request_headers :: headers

subsection \<open>Strings and JSON values as JavaScript sees them\<close>

text \<open>\<open>String(n)\<close> for a length.\<close>

definition digit_char :: "nat \<Rightarrow> char" where
  "digit_char d = ''0123456789'' ! d"

fun string_of_nat :: "nat \<Rightarrow> string" where
  "string_of_nat n =
     (if n < 10 then [digit_char n]
      else string_of_nat (n div 10) @ [digit_char (n mod 10)])"

text \<open>
  \<open>data.props\<close>: a \<open>TypeError\<close> on \<open>null\<close> (here \<open>None\<close>), the field of an object, and
  \<open>undefined\<close> on anything else.
\<close>

fun get_props :: "json \<Rightarrow> json option" where
  "get_props JNull = None"
| "get_props JUndefined = None"
| "get_props (JObj fs) = Some (case map_of fs ''props'' of None \<Rightarrow> JUndefined | Some v \<Rightarrow> v)"
| "get_props d = Some JUndefined"

text \<open>The own enumerable properties that \<open>{...data}\<close> copies.\<close>

fun spread :: "json \<Rightarrow> (string \<times> json) list" where
  "spread (JObj fs) = fs"
| "spread (JArr xs) = zip (map string_of_nat [0..<length xs]) xs"
| "spread (JStr s) = zip (map string_of_nat [0..<length s]) (map (\<lambda>c. JStr [c]) s)"
| "spread d = []"

text \<open>A property written after the spread replaces the copied one in place, or is added last.\<close>

fun object_set :: "(string \<times> json) list \<Rightarrow> string \<Rightarrow> json \<Rightarrow> (string \<times> json) list" where
  "object_set [] k v = [(k, v)]"
| "object_set ((n, w) # fs) k v =
     (if n = k then (k, v) # fs else (n, w) # object_set fs k v)"

subsection \<open>The middleware response branch, lines 43 to 109\<close>

text \<open>
  Lines 82 to 96: the \<open>try\<close> block that runs on the last chunk, with the whole buffer.
  Whatever throws inside it (\<open>JSON.parse\<close>, reading \<open>props\<close> of \<open>null\<close>) is caught and the
  chunk is kept as it is.
\<close>

definition replaceNextData :: "platform \<Rightarrow> (json \<Rightarrow> json) list \<Rightarrow> string \<Rightarrow> chunk_action" where
  "replaceNextData P transforms buffer =
     (case json_parse P (string_trim P buffer) of
        None \<Rightarrow> Keep
      | Some data \<Rightarrow>
          (case get_props data of
             None \<Rightarrow> Keep
           | Some p \<Rightarrow>
               (let props = foldl (\<lambda>prev transform. transform prev) p transforms
                in Replace (json_stringify P (JObj (object_set (spread data) ''props'' props))))))"

text \<open>
  Lines 78 to 101: the text handler registered on the \<open>__NEXT_DATA__\<close> script tag. It is
  called once per text chunk with the buffer collected so far and returns the new buffer
  and what happens to the chunk.
\<close>

definition nextDataText :: "platform \<Rightarrow> (json \<Rightarrow> json) list \<Rightarrow> text_handler" where
  "nextDataText P transforms buffer textChunk =
     (let buffer1 = buffer @ chunk_text textChunk
      in if lastInTextNode textChunk then (buffer1, replaceNextData P transforms buffer1)
         else (buffer1, Remove))"

text \<open>The rewriter hands the chunks of a text node to the handler in document order.\<close>

fun feed_chunks :: "text_handler \<Rightarrow> string \<Rightarrow> text_chunk list \<Rightarrow> string \<times> chunk_action list" where
  "feed_chunks handler buffer [] = (buffer, [])"
| "feed_chunks handler buffer (c # cs) =
     (case handler buffer c of
        (buffer1, a) \<Rightarrow>
          (case feed_chunks handler buffer1 cs of (buffer2, as) \<Rightarrow> (buffer2, a # as)))"

text \<open>Lines 51 to 56: the cookies the framework response collected are copied over.\<close>

definition copy_cookies :: "mw_response \<Rightarrow> response" where
  "copy_cookies response =
     (case cookies_headers response of
        None \<Rightarrow> originResponse response
      | Some ch \<Rightarrow>
          (case headers_get ch ''set-cookie'' of
             None \<Rightarrow> originResponse response
           | Some c \<Rightarrow>
               (originResponse response)
                 \<lparr>resp_headers := headers_set (resp_headers (originResponse response)) ''set-cookie'' c\<rparr>))"

definition is_json :: "response \<Rightarrow> bool" where
  "is_json r =
     (case headers_get (resp_headers r) ''content-type'' of
        None \<Rightarrow> False
      | Some ct \<Rightarrow> str_includes ct ''application/json'')"

text \<open>
  \<open>Response.json(data, init)\<close>: the serialised data as body, status 200 when \<open>init\<close> names
  none, and a JSON content type unless the headers of \<open>init\<close> have one.
\<close>

definition response_json :: "platform \<Rightarrow> json \<Rightarrow> headers \<Rightarrow> response" where
  "response_json P data hs =
     \<lparr>resp_status = 200,
      resp_headers =
        (if headers_has hs ''content-type'' then hs
         else headers_set hs ''content-type'' ''application/json''),
      resp_body = json_stringify P data\<rparr>"

text \<open>
  Lines 43 to 109. \<open>JSON.stringify\<close> of \<open>undefined\<close> is \<open>undefined\<close>, so reading the
  length of the body is a \<open>TypeError\<close> when the transforms return \<open>undefined\<close>.
\<close>

definition buildMiddlewareResponse :: "platform \<Rightarrow> request \<Rightarrow> mw_response \<Rightarrow> outcome" where
  "buildMiddlewareResponse P request response =
     (if req_method request = ''HEAD'' \<or> req_method request = ''OPTIONS'' then
        Returned (originResponse response)
      else
        (let origin = copy_cookies response
         in if is_json origin then
              (case json_parse P (resp_body origin) of
                 None \<Rightarrow> Thrown InvalidJSON
               | Some props \<Rightarrow>
                   (let transformed =
                          foldl (\<lambda>prev transform. transform prev) props (dataTransforms response)
                    in if transformed = JUndefined then Thrown TypeError
                       else
                         (let body = json_stringify P transformed;
                              hs = headers_set (mw_headers response) ''content-length''
                                     (string_of_nat (length body))
                          in Returned (response_json P transformed hs))))
            else
              Returned
                (html_transform P
                   (if dataTransforms response \<noteq> [] then
                      Some (nextDataText P (dataTransforms response))
                    else None)
                   (elementHandlers response) origin)))"

subsection \<open>The plain response branch, lines 110 to 207\<close>

text \<open>
  \<open>addMiddlewareHeaders(promise, res)\<close> awaits the promise; a rejection leaves
  \<open>buildResponse\<close> as an exception.
\<close>

definition await_merge :: "platform \<Rightarrow> js_error + response \<Rightarrow> response \<Rightarrow> outcome" where
  "await_merge P promised res =
     (case promised of
        Inl e \<Rightarrow> Thrown e
      | Inr origin \<Rightarrow> Returned (addMiddlewareHeaders P origin res))"

definition config_basePath :: "next_config option \<Rightarrow> string option" where
  "config_basePath cfg = (case cfg of None \<Rightarrow> None | Some c \<Rightarrow> basePath c)"

definition config_locales :: "next_config option \<Rightarrow> string list option" where
  "config_locales cfg = (case cfg of None \<Rightarrow> None | Some c \<Rightarrow> i18n_locales c)"

text \<open>Lines 143 to 159: the request sent to another origin.\<close>

definition proxy_request :: "request \<Rightarrow> url \<Rightarrow> request" where
  "proxy_request request rewriteUrl =
     \<lparr>req_url = rewriteUrl,
      req_method = req_method request,
      req_headers = filter (\<lambda>(key, v). \<not> startsWith key ''x-nf-'') (req_headers request),
      req_body = (if req_body request \<noteq> None \<and> \<not> req_bodyUsed request then req_body request else None),
      req_bodyUsed = False\<rparr>"

text \<open>
  Lines 119 to 170, entered with a truthy \<open>rewrite\<close>. On line 170 the request object
  itself is the \<open>init\<close> of the new request: when its body has already been read,
  \<open>new Request\<close> throws a \<open>TypeError\<close> and nothing is fetched.
\<close>

definition rewriteResponse ::
  "platform \<Rightarrow> request \<Rightarrow> response \<Rightarrow> next_config option \<Rightarrow> bool \<Rightarrow> string \<Rightarrow> build_result" where
  "rewriteResponse P request res cfg isDataReq rewrite =
     (case resolveURL P rewrite (req_url request) of
        None \<Rightarrow>
          \<lparr>br_outcome = Thrown InvalidURL, br_effects = [], br_request_headers = req_headers request\<rparr>
      | Some rewriteUrl \<Rightarrow>
          (let baseUrl = req_url request
           in if url_toString rewriteUrl = url_toString baseUrl then
                \<lparr>br_outcome = ReturnedVoid, br_effects = [],
                 br_request_headers = req_headers request\<rparr>
              else
                (let relativeUrl = relativizeURL P rewrite (url_toString (req_url request));
                     originalPath = url_pathname (req_url request);
                     res1 = (if isDataReq then
                               res\<lparr>resp_headers :=
                                     headers_set (resp_headers res) ''x-nextjs-rewrite'' relativeUrl\<rparr>
                             else res)
                 in if url_origin rewriteUrl \<noteq> url_origin baseUrl then
                      (let proxyRequest = proxy_request request rewriteUrl
                       in \<lparr>br_outcome = await_merge P (fetch P proxyRequest) res1,
                           br_effects = [Fetch proxyRequest],
                           br_request_headers = req_headers request\<rparr>)
                    else
                      (let rewriteUrl1 =
                             (if isDataReq then
                                rewriteUrl\<lparr>url_pathname :=
                                  rewriteDataPath P originalPath (url_pathname rewriteUrl)
                                    (config_basePath cfg)\<rparr>
                              else rewriteUrl);
                           res2 = res1\<lparr>resp_headers :=
                                    headers_set (resp_headers res1) ''x-middleware-rewrite'' relativeUrl\<rparr>;
                           request1 = request\<lparr>req_headers :=
                                    headers_set (req_headers request) ''x-middleware-rewrite'' rewrite\<rparr>;
                           rewritten = request1\<lparr>req_url := rewriteUrl1\<rparr>
                       in if req_body request \<noteq> None \<and> req_bodyUsed request then
                            \<lparr>br_outcome = Thrown TypeError, br_effects = [],
                             br_request_headers = req_headers request1\<rparr>
                          else
                            \<lparr>br_outcome = await_merge P (fetch P rewritten) res2,
                             br_effects = [Fetch rewritten],
                             br_request_headers = req_headers request1\<rparr>))))"

text \<open>
  Lines 173 to 188: the redirect target and the response after the locale has been put
  back into the path.
\<close>

definition localizeRedirect ::
  "platform \<Rightarrow> request \<Rightarrow> response \<Rightarrow> next_config option \<Rightarrow> string option \<Rightarrow>
     js_error + (string option \<times> response)" where
  "localizeRedirect P request res cfg requestLocale =
     (case (headers_get (resp_headers res) ''location'', requestLocale) of
        (Some redirect, Some requested) \<Rightarrow>
          (if redirect \<noteq> [] \<and> requested \<noteq> [] then
             (case resolveURL P redirect (req_url request) of
                None \<Rightarrow> Inl InvalidURL
              | Some redirectUrl \<Rightarrow>
                  (let normalizedRedirect =
                         normalizeLocalePath P (url_pathname redirectUrl) (config_locales cfg);
                       locale = (case detectedLocale normalizedRedirect of
                                   Some detected \<Rightarrow> detected
                                 | None \<Rightarrow> requested)
                   in if locale \<noteq> [] \<and> \<not> startsWith (url_pathname redirectUrl) ''/api/'' then
                        (let redirect1 =
                               url_toString
                                 (redirectUrl\<lparr>url_pathname :=
                                    ''/'' @ locale @ pl_pathname normalizedRedirect\<rparr>)
                         in Inr (Some redirect1,
                                 res\<lparr>resp_headers :=
                                       headers_set (resp_headers res) ''location'' redirect1\<rparr>))
                      else Inr (Some redirect, res)))
           else Inr (Some redirect, res))
      | (redirect, requested) \<Rightarrow> Inr (redirect, res))"

text \<open>Lines 191 to 200: a data request is told about the redirect in a header of its own.\<close>

definition dataRedirect ::
  "platform \<Rightarrow> request \<Rightarrow> bool \<Rightarrow> string option \<Rightarrow> response \<Rightarrow> response" where
  "dataRedirect P request isDataReq redirect res =
     (let res1 =
            (case redirect of
               None \<Rightarrow> res
             | Some target \<Rightarrow>
                 (if target \<noteq> [] \<and> isDataReq then
                    res\<lparr>resp_headers :=
                          headers_set (headers_delete (resp_headers res) ''location'')
                            ''x-nextjs-redirect''
                            (relativizeURL P target (url_toString (req_url request)))\<rparr>
                  else res))
      in (case headers_get (resp_headers res1) ''x-nextjs-redirect'' of
            None \<Rightarrow> res1
          | Some nextRedirect \<Rightarrow>
              (if nextRedirect \<noteq> [] \<and> isDataReq then
                 res1\<lparr>resp_headers :=
                        headers_set (resp_headers res1) ''x-nextjs-redirect''
                          (normalizeDataUrl P nextRedirect)\<rparr>
               else res1)))"

text \<open>Lines 202 to 207.\<close>

definition finishResponse :: "platform \<Rightarrow> response \<Rightarrow> outcome \<times> effect list" where
  "finishResponse P res =
     (if headers_get (resp_headers res) ''x-middleware-next'' = Some ''1'' then
        (await_merge P (context_next P)
           (res\<lparr>resp_headers := headers_delete (resp_headers res) ''x-middleware-next''\<rparr>),
         [ContextNext])
      else (Returned res, []))"

text \<open>
  Lines 110 to 207. \<open>res\<close> is the copy made by \<open>new Response(result.response.body,
  result.response)\<close>; the request object gets its skip marker before anything else.
\<close>

definition buildPlainResponse ::
  "platform \<Rightarrow> request \<Rightarrow> response \<Rightarrow> next_config option \<Rightarrow> string option \<Rightarrow> build_result" where
  "buildPlainResponse P request0 res cfg requestLocale =
     (let request = request0\<lparr>req_headers :=
                      headers_set (req_headers request0) ''x-nf-next-middleware'' ''skip''\<rparr>;
          rewrite = headers_get (resp_headers res) ''x-middleware-rewrite'';
          isDataReq = headers_has (req_headers request) ''x-nextjs-data''
      in if truthy rewrite then
           rewriteResponse P request res cfg isDataReq (case rewrite of Some r \<Rightarrow> r | None \<Rightarrow> [])
         else
           (case localizeRedirect P request res cfg requestLocale of
              Inl e \<Rightarrow>
                \<lparr>br_outcome = Thrown e, br_effects = [], br_request_headers = req_headers request\<rparr>
            | Inr (redirect, res1) \<Rightarrow>
                (case finishResponse P (dataRedirect P request isDataReq redirect res1) of
                   (out, effs) \<Rightarrow>
                     \<lparr>br_outcome = out, br_effects = effs,
                      br_request_headers = req_headers request\<rparr>)))"

subsection \<open>The whole function, lines 24 to 208\<close>

fun response_headers :: "handler_response \<Rightarrow> headers" where
  "response_headers (PlainResponse r) = resp_headers r"
| "response_headers (MiddlewareResponse m) = mw_headers m"

fun with_headers :: "handler_response \<Rightarrow> headers \<Rightarrow> handler_response" where
  "with_headers (PlainResponse r) hs = PlainResponse (r\<lparr>resp_headers := hs\<rparr>)"
| "with_headers (MiddlewareResponse m) hs = MiddlewareResponse (m\<lparr>mw_headers := hs\<rparr>)"

text \<open>
  Lines 36 to 41: the header overrides of the middleware are applied to both header
  objects, and a \<open>MiddlewareRequest\<close> that was returned directly is continued. The result
  is the request with its updated headers, the calls made, and the response to build from.
\<close>

definition prepare ::
  "platform \<Rightarrow> build_options \<Rightarrow> request \<times> effect list \<times> (js_error + handler_response)" where
  "prepare P opts =
     (let request = opt_request opts
      in case opt_result opts of
           Direct r \<Rightarrow>
             (case updateModifiedHeaders P (req_headers request) (response_headers r) of
                (reqH, resH) \<Rightarrow> (request\<lparr>req_headers := reqH\<rparr>, [], Inr (with_headers r resH)))
         | MiddlewareRequest hs continue \<Rightarrow>
             (case updateModifiedHeaders P (req_headers request) hs of
                (reqH, resH) \<Rightarrow> (request\<lparr>req_headers := reqH\<rparr>, [MiddlewareNext], continue resH)))"

definition buildResponse :: "platform \<Rightarrow> build_options \<Rightarrow> build_result" where
  "buildResponse P opts =
     (case prepare P opts of
        (request, effs, Inl e) \<Rightarrow>
          \<lparr>br_outcome = Thrown e, br_effects = effs, br_request_headers = req_headers request\<rparr>
      | (request, effs, Inr (MiddlewareResponse response)) \<Rightarrow>
          \<lparr>br_outcome = buildMiddlewareResponse P request response, br_effects = effs,
           br_request_headers = req_headers request\<rparr>
      | (request, effs, Inr (PlainResponse response)) \<Rightarrow>
          (let r = buildPlainResponse P request response (opt_nextConfig opts)
                     (opt_requestLocale opts)
           in r\<lparr>br_effects := effs @ br_effects r\<rparr>))"

fun is_fetch :: "effect \<Rightarrow> bool" where
  "is_fetch (Fetch q) = True"
| "is_fetch e = False"

subsection \<open>A sample platform\<close>

text \<open>
  Concrete stand-ins for the parameters, used to run the model on examples. The site is
  \<open>https://shop.example\<close> with the locales \<open>en\<close> and \<open>fr\<close>; its data routes live under
  \<open>/_next/data/build\<close>.
\<close>

definition cdn_url :: url where
  "cdn_url =
     \<lparr>url_scheme = ''https'', url_userinfo = [], url_host = ''cdn.example'',
      url_pathname = ''/docs'', url_search = [], url_hash = []\<rparr>"

definition sample_resolveURL :: "string \<Rightarrow> url \<Rightarrow> url option" where
  "sample_resolveURL input base =
     (if startsWith input ''/'' then
        Some (base\<lparr>url_pathname := input, url_search := [], url_hash := []\<rparr>)
      else if input = ''https://cdn.example/docs'' then Some cdn_url
      else if input = ''https://shop.example/fr/sale'' then
        Some (sample_url\<lparr>url_pathname := ''/fr/sale''\<rparr>)
      else None)"

definition sample_relativizeURL :: "string \<Rightarrow> string \<Rightarrow> string" where
  "sample_relativizeURL u base =
     (if startsWith u ''https://shop.example'' then drop 20 u else u)"

definition sample_normalizeLocalePath :: "string \<Rightarrow> string list option \<Rightarrow> path_locale" where
  "sample_normalizeLocalePath path locales =
     (if startsWith path ''/fr/'' \<and> (case locales of None \<Rightarrow> False | Some ls \<Rightarrow> ''fr'' \<in> set ls)
      then \<lparr>detectedLocale = Some ''fr'', pl_pathname = drop 3 path\<rparr>
      else \<lparr>detectedLocale = None, pl_pathname = path\<rparr>)"

fun merge_headers :: "headers \<Rightarrow> headers \<Rightarrow> headers" where
  "merge_headers [] hs = hs"
| "merge_headers ((k, v) # ms) hs = headers_set (merge_headers ms hs) k v"

definition sample_merge :: "response \<Rightarrow> response \<Rightarrow> response" where
  "sample_merge origin mw =
     origin\<lparr>resp_headers := merge_headers (resp_headers mw) (resp_headers origin)\<rparr>"

definition sample_page :: "request \<Rightarrow> response" where
  "sample_page rq =
     \<lparr>resp_status = 200, resp_headers = [(''content-type'', ''text/html'')],
      resp_body = ''<p>'' @ url_pathname (req_url rq) @ ''</p>''\<rparr>"

fun join_with :: "string \<Rightarrow> string list \<Rightarrow> string" where
  "join_with sep [] = []"
| "join_with sep [x] = x"
| "join_with sep (x # y # ys) = x @ sep @ join_with sep (y # ys)"

definition quoted :: "string \<Rightarrow> string" where
  "quoted s = CHR 0x22 # s @ [CHR 0x22]"

fun sample_stringify :: "json \<Rightarrow> string" where
  "sample_stringify JUndefined = []"
| "sample_stringify JNull = ''null''"
| "sample_stringify (JBool b) = (if b then ''true'' else ''false'')"
| "sample_stringify (JNum n) =
     (if n < 0 then ''-'' @ string_of_nat (nat (- n)) else string_of_nat (nat n))"
| "sample_stringify (JStr s) = quoted s"
| "sample_stringify (JArr xs) = ''['' @ join_with '','' (map sample_stringify xs) @ '']''"
| "sample_stringify (JObj fs) =
     ''{'' @ join_with '',''
              (map (\<lambda>p. quoted (fst p) @ '':'' @ sample_stringify (snd p))
                 (filter (\<lambda>p. snd p \<noteq> JUndefined) fs)) @ ''}''"

definition page_data_text :: string where
  "page_data_text = ''{'' @ quoted ''props'' @ '':{'' @ quoted ''n'' @ '':1},'' @ quoted ''page'' @ '':'' @ quoted ''/cart'' @ ''}''"

definition page_data :: json where
  "page_data = JObj [(''props'', JObj [(''n'', JNum 1)]), (''page'', JStr ''/cart'')]"

definition props_text :: string where
  "props_text = ''{'' @ quoted ''n'' @ '':1}''"

text \<open>A trim that knows the ASCII white space only.\<close>

definition is_space :: "char \<Rightarrow> bool" where
  "is_space c = (c \<in> set [CHR '' '', CHR 0x09, CHR 0x0A, CHR 0x0B, CHR 0x0C, CHR 0x0D])"

definition sample_trim :: "string \<Rightarrow> string" where
  "sample_trim s = rev (dropWhile is_space (rev (dropWhile is_space s)))"

definition sample_parse :: "string \<Rightarrow> json option" where
  "sample_parse s =
     (if s = page_data_text then Some page_data
      else if s = props_text then Some (JObj [(''n'', JNum 1)])
      else None)"

text \<open>A rewriter that meets the script tag's text as a single chunk, the whole body.\<close>

definition sample_html_transform ::
  "text_handler option \<Rightarrow> (string \<times> string) list \<Rightarrow> response \<Rightarrow> response" where
  "sample_html_transform handler ehs r =
     (case handler of
        None \<Rightarrow> r
      | Some h \<Rightarrow>
          (case snd (h [] \<lparr>chunk_text = resp_body r, lastInTextNode = True\<rparr>) of
             Keep \<Rightarrow> r
           | Remove \<Rightarrow> r\<lparr>resp_body := []\<rparr>
           | Replace s \<Rightarrow> r\<lparr>resp_body := s\<rparr>))"

definition sample_platform :: platform where
  "sample_platform =
     \<lparr>resolveURL = sample_resolveURL,
      relativizeURL = sample_relativizeURL,
      normalizeLocalePath = sample_normalizeLocalePath,
      normalizeDataUrl = (\<lambda>u. if startsWith u ''/_next/data/build'' then drop 17 u else u),
      rewriteDataPath = (\<lambda>dataUrl newRoute base. ''/_next/data/build'' @ newRoute @ ''.json''),
      updateModifiedHeaders = (\<lambda>reqH resH. (reqH, resH)),
      addMiddlewareHeaders = sample_merge,
      fetch = (\<lambda>rq. Inr (sample_page rq)),
      context_next =
        Inr \<lparr>resp_status = 200, resp_headers = [(''content-type'', ''text/html'')],
             resp_body = ''<p>origin</p>''\<rparr>,
      string_trim = sample_trim,
      json_parse = sample_parse,
      json_stringify = sample_stringify,
      html_transform = sample_html_transform\<rparr>"

definition plain_options :: "request \<Rightarrow> headers \<Rightarrow> string option \<Rightarrow> build_options" where
  "plain_options rq hs locale =
     \<lparr>opt_request = rq,
      opt_result = Direct (PlainResponse \<lparr>resp_status = 200, resp_headers = hs, resp_body = []\<rparr>),
      opt_nextConfig = Some sample_config,
      opt_requestLocale = locale\<rparr>"

definition data_request :: request where
  "data_request =
     sample_request\<lparr>req_headers := [(''accept'', ''*/*''), (''x-nextjs-data'', ''1'')]\<rparr>"

text \<open>Middleware responses with two transforms, over a JSON body and over a page.\<close>

definition set_n :: "int \<Rightarrow> json \<Rightarrow> json" where
  "set_n v p = JObj (object_set (spread p) ''n'' (JNum v))"

definition json_mw :: mw_response where
  "json_mw =
     \<lparr>originResponse =
        \<lparr>resp_status = 200, resp_headers = [(''content-type'', ''application/json'')],
         resp_body = props_text\<rparr>,
      mw_headers = [(''content-type'', ''application/json'')],
      cookies_headers = None,
      dataTransforms = [set_n 2, set_n 3],
      elementHandlers = []\<rparr>"

definition html_mw :: mw_response where
  "html_mw =
     \<lparr>originResponse =
        \<lparr>resp_status = 200, resp_headers = [(''content-type'', ''text/html'')],
         resp_body = page_data_text\<rparr>,
      mw_headers = [(''content-type'', ''text/html'')],
      cookies_headers = None,
      dataTransforms = [set_n 2, set_n 3],
      elementHandlers = []\<rparr>"

definition mw_options :: "string \<Rightarrow> mw_response \<Rightarrow> build_options" where
  "mw_options m response =
     \<lparr>opt_request = sample_request\<lparr>req_method := m\<rparr>,
      opt_result = Direct (MiddlewareResponse response),
      opt_nextConfig = Some sample_config,
      opt_requestLocale = None\<rparr>"

section \<open>Properties of the server handler\<close>

lemma initialise_cached:
  "nextHandler s = Some h \<Longrightarrow> initialise B s = (s, [], None)"
  by (simp add: initialise_def)

lemma server_handler_cached:
  assumes "nextHandler s = Some h"
  shows "fst (server_handler H B s rq) = s"
    and "fst (snd (server_handler H B s rq)) = [CallNextHandler]"
  using assms by (simp_all add: server_handler_def initialise_cached Let_def)

lemma run_invocations_cached:
  "nextHandler s = Some h \<Longrightarrow>
   fst (run_invocations H invs s) = s \<and>
   filter is_assignment (snd (run_invocations H invs s)) = []"
proof (induction invs)
  case Nil
  then show ?case by simp
next
  case (Cons inv invs)
  obtain B rq where inv: "inv = (B, rq)" by (cases inv)
  obtain s1 evs out where step: "server_handler H B s rq = (s1, evs, out)"
    by (cases "server_handler H B s rq")
  from server_handler_cached [OF Cons.prems, of H B rq] step
  have s1: "s1 = s" and evs: "evs = [CallNextHandler]" by simp_all
  obtain s2 evs2 where rest: "run_invocations H invs s = (s2, evs2)"
    by (cases "run_invocations H invs s")
  from Cons.IH [OF Cons.prems] rest
  have "s2 = s" and "filter is_assignment evs2 = []" by simp_all
  with inv step s1 evs rest show ?case by simp
qed

lemma initialise_assigns_once:
  "length (filter is_config_assignment (fst (snd (initialise B s)))) \<le> 1 \<and>
   length (filter (\<lambda>e. e = AssignNextHandler) (fst (snd (initialise B s)))) \<le> 1"
  by (simp add: initialise_def split: option.splits sum.splits)


subsection \<open>C1: the catch-all around the framework handler\<close>




text \<open>
  The helpers run after the response has ended. One that sets a header then throws, and
  the invocation is rejected instead of answered.
\<close>

lemma header_setting_helpers_reject:
  "snd (snd (server_handler sample_helpers
        \<lparr>getRunConfig = Inr sample_config, getRequestHandlers = Inr ok_handler\<rparr>
        initial_state sample_request)) = Rejects HeadersSent"
  by (simp add: server_handler_def initialise_def initial_state_def Let_def ok_handler_def
      fresh_response_def call_handler_def res_end_def finish_response_def run_helper_def
      sample_helpers_def res_setHeader_def)




subsection \<open>C3: the two module-scoped caches\<close>

text \<open>
  Claim C3 says that each cache is assigned at most once per runtime instance, on the
  first invocation only. The guard tests \<open>nextHandler\<close> alone: when the first bootstrap
  stops after \<open>nextConfig\<close> was assigned, the second invocation assigns \<open>nextConfig\<close> again.
\<close>

theorem config_reassigned_after_failed_bootstrap:
  "snd (run_invocations sample_helpers
      [(failing_bootstrap, sample_request), (working_bootstrap, sample_request)] initial_state) =
   [AssignNextConfig sample_config, SetRunConfig sample_config,
    AssignNextConfig other_config, SetRunConfig other_config, AssignNextHandler, CallNextHandler]"
  by (simp add: server_handler_def initialise_def initial_state_def Let_def
      failing_bootstrap_def working_bootstrap_def)

text \<open>
  C3, as amended. Once \<open>nextHandler\<close> is set, no later invocation assigns either cache or
  changes the module state, whatever the invocations are. And when an invocation starts
  with \<open>nextHandler\<close> unset and its bootstrap completes, then over that invocation and all
  later ones each of \<open>nextConfig\<close> and \<open>nextHandler\<close> is assigned exactly once, by that
  invocation.
\<close>

theorem caches_assigned_while_handler_unset:
  "(nextHandler s \<noteq> None \<longrightarrow>
      fst (run_invocations H invs s) = s \<and>
      filter is_assignment (snd (run_invocations H invs s)) = []) \<and>
   (nextHandler s = None \<and> getRunConfig B = Inr c \<and> getRequestHandlers B = Inr h \<longrightarrow>
      fst (run_invocations H ((B, rq) # invs) s) = s\<lparr>nextConfig := Some c, nextHandler := Some h\<rparr> \<and>
      filter is_assignment (snd (run_invocations H ((B, rq) # invs) s)) =
        [AssignNextConfig c, AssignNextHandler])"
proof (intro conjI impI)
  assume "nextHandler s \<noteq> None"
  then obtain g where "nextHandler s = Some g" by auto
  from run_invocations_cached [OF this, of H invs]
  show "fst (run_invocations H invs s) = s"
    and "filter is_assignment (snd (run_invocations H invs s)) = []" by simp_all
next
  assume a: "nextHandler s = None \<and> getRunConfig B = Inr c \<and> getRequestHandlers B = Inr h"
  let ?s1 = "s\<lparr>nextConfig := Some c, nextHandler := Some h\<rparr>"
  have step: "server_handler H B s rq =
      (?s1, [AssignNextConfig c, SetRunConfig c, AssignNextHandler, CallNextHandler],
       snd (snd (server_handler H B s rq)))"
    using a by (simp add: server_handler_def initialise_def Let_def)
  have "nextHandler ?s1 = Some h" by simp
  from run_invocations_cached [OF this, of H invs]
  have rest: "fst (run_invocations H invs ?s1) = ?s1"
    "filter is_assignment (snd (run_invocations H invs ?s1)) = []" by simp_all
  show "fst (run_invocations H ((B, rq) # invs) s) = ?s1"
    using rest by (subst run_invocations.simps, subst step) (simp add: split_beta)
  show "filter is_assignment (snd (run_invocations H ((B, rq) # invs) s)) =
        [AssignNextConfig c, AssignNextHandler]"
    using rest by (subst run_invocations.simps, subst step) (simp add: split_beta)
qed

theorem caches_assigned_while_handler_unset_witness:
  "fst (run_invocations sample_helpers
      [(working_bootstrap, sample_request), (failing_bootstrap, sample_request)] initial_state) =
     \<lparr>nextHandler = Some ok_handler, nextConfig = Some other_config\<rparr> \<and>
   filter is_assignment (snd (run_invocations sample_helpers
      [(working_bootstrap, sample_request), (failing_bootstrap, sample_request)] initial_state)) =
     [AssignNextConfig other_config, AssignNextHandler] \<and>
   fst (run_invocations sample_helpers [(failing_bootstrap, sample_request)]
      \<lparr>nextHandler = Some ok_handler, nextConfig = Some other_config\<rparr>) =
     \<lparr>nextHandler = Some ok_handler, nextConfig = Some other_config\<rparr>"
  using caches_assigned_while_handler_unset [of initial_state sample_helpers
      "[(failing_bootstrap, sample_request)]" working_bootstrap other_config ok_handler
      sample_request]
    caches_assigned_while_handler_unset [of
      "\<lparr>nextHandler = Some ok_handler, nextConfig = Some other_config\<rparr>" sample_helpers
      "[(failing_bootstrap, sample_request)]" working_bootstrap other_config ok_handler
      sample_request]
  by (simp add: initial_state_def working_bootstrap_def)

section \<open>Properties of the response builder\<close>

subsection \<open>Header lists\<close>

lemma map_of_headers_delete:
  "map_of (headers_delete h k) k' = (if k' = k then None else map_of h k')"
  by (induction h) (auto simp: headers_delete_def)

lemma map_of_headers_set:
  "map_of (headers_set h k v) k' = (if k' = k then Some v else map_of h k')"
  by (induction h) (auto simp: map_of_headers_delete)

lemma headers_get_delete:
  "headers_get (headers_delete h k) k' = (if k' = k then None else headers_get h k')"
  by (simp add: headers_get_def map_of_headers_delete)

lemma headers_get_set:
  "headers_get (headers_set h k v) k' = (if k' = k then Some v else headers_get h k')"
  by (simp add: headers_get_def map_of_headers_set)

lemma filter_headers_delete:
  "\<not> Q k \<Longrightarrow> filter (\<lambda>(n, v). Q n) (headers_delete h k) = filter (\<lambda>(n, v). Q n) h"
  by (induction h) (auto simp: headers_delete_def)

lemma filter_headers_set:
  "\<not> Q k \<Longrightarrow> filter (\<lambda>(n, v). Q n) (headers_set h k v) = filter (\<lambda>(n, v). Q n) h"
  by (induction h) (auto simp: filter_headers_delete)

lemma headers_get_filter:
  "headers_get (filter (\<lambda>(n, v). Q n) h) k = (if Q k then headers_get h k else None)"
  by (induction h) (auto simp: headers_get_def)

lemma skip_marker_keeps_data_marker:
  "headers_has (headers_set hs ''x-nf-next-middleware'' ''skip'') ''x-nextjs-data'' =
   headers_has hs ''x-nextjs-data''"
  by (simp add: headers_has_def map_of_headers_set)

lemma headers_delete_twice: "headers_delete (headers_delete h k) k = headers_delete h k"
  by (simp add: headers_delete_def)

lemma headers_set_twice: "headers_set (headers_set h k a) k b = headers_set h k b"
  by (induction h) (auto simp: headers_delete_twice headers_delete_def)

subsection \<open>Unfolding the plain branch\<close>

lemma buildResponse_plain:
  "prepare P opts = (rq, evs, Inr (PlainResponse res)) \<Longrightarrow>
   buildResponse P opts =
     (buildPlainResponse P rq res (opt_nextConfig opts) (opt_requestLocale opts))
       \<lparr>br_effects := evs @ br_effects (buildPlainResponse P rq res (opt_nextConfig opts)
           (opt_requestLocale opts))\<rparr>"
  by (simp add: buildResponse_def Let_def)

lemma buildPlainResponse_rewrite:
  "headers_get (resp_headers res) ''x-middleware-rewrite'' = Some rewrite \<Longrightarrow> rewrite \<noteq> [] \<Longrightarrow>
   buildPlainResponse P rq res cfg loc =
     rewriteResponse P
       (rq\<lparr>req_headers := headers_set (req_headers rq) ''x-nf-next-middleware'' ''skip''\<rparr>)
       res cfg
       (headers_has (headers_set (req_headers rq) ''x-nf-next-middleware'' ''skip'') ''x-nextjs-data'')
       rewrite"
  by (simp add: buildPlainResponse_def Let_def)

subsection \<open>C9: a rewrite to the request's own URL\<close>

text \<open>
  C9. Let the response being built be a plain response (\<open>prepare\<close> yields it after the
  middleware header update) that carries a non-empty \<open>x-middleware-rewrite\<close> header. If the
  target, resolved against the request URL, serialises to the same string as the request
  URL, \<open>buildResponse\<close> returns no response at all, and calls nothing on the way.
\<close>

theorem same_url_rewrite_returns_void:
  assumes "prepare P opts = (rq, evs, Inr (PlainResponse res))"
    and "headers_get (resp_headers res) ''x-middleware-rewrite'' = Some rewrite"
    and "rewrite \<noteq> []"
    and "resolveURL P rewrite (req_url rq) = Some rewriteUrl"
    and "url_toString rewriteUrl = url_toString (req_url rq)"
  shows "br_outcome (buildResponse P opts) = ReturnedVoid \<and>
         br_effects (buildResponse P opts) = evs"
  using assms
  by (simp add: buildResponse_plain buildPlainResponse_rewrite rewriteResponse_def)

theorem same_url_rewrite_returns_void_witness:
  "br_outcome (buildResponse sample_platform
      (plain_options sample_request [(''x-middleware-rewrite'', ''/cart'')] None)) = ReturnedVoid"
  using same_url_rewrite_returns_void [of sample_platform
      "plain_options sample_request [(''x-middleware-rewrite'', ''/cart'')] None"
      sample_request "[]"
      "\<lparr>resp_status = 200, resp_headers = [(''x-middleware-rewrite'', ''/cart'')], resp_body = []\<rparr>"
      "''/cart''" sample_url]
  by (simp add: prepare_def plain_options_def sample_platform_def sample_request_def
      sample_url_def sample_resolveURL_def headers_get_def url_toString_def)

subsection \<open>C10: the proxy request of a cross-origin rewrite\<close>

text \<open>
  C10. For a rewrite to another origin, exactly one request is fetched, and the response
  served is \<open>addMiddlewareHeaders\<close> of what \<open>fetch\<close> returns for that very request. The
  request \<open>proxy\<close> goes to the rewrite target with the method of the incoming request,
  and its headers are exactly the request's headers (as they stand after the middleware
  header update) without those whose name starts with \<open>x-nf-\<close>: no such header is sent,
  and every other name has the value it has on the request.
\<close>

theorem proxy_request_drops_internal_headers:
  assumes "prepare P opts = (rq, evs, Inr (PlainResponse res))"
    and "headers_get (resp_headers res) ''x-middleware-rewrite'' = Some rewrite"
    and "rewrite \<noteq> []"
    and "resolveURL P rewrite (req_url rq) = Some rewriteUrl"
    and "url_toString rewriteUrl \<noteq> url_toString (req_url rq)"
    and "url_origin rewriteUrl \<noteq> url_origin (req_url rq)"
    and "proxy =
           \<lparr>req_url = rewriteUrl,
            req_method = req_method rq,
            req_headers = filter (\<lambda>(k, v). \<not> startsWith k ''x-nf-'') (req_headers rq),
            req_body = (if req_body rq \<noteq> None \<and> \<not> req_bodyUsed rq then req_body rq else None),
            req_bodyUsed = False\<rparr>"
    and "res1 =
           (if headers_has (req_headers rq) ''x-nextjs-data'' then
              res\<lparr>resp_headers :=
                    headers_set (resp_headers res) ''x-nextjs-rewrite''
                      (relativizeURL P rewrite (url_toString (req_url rq)))\<rparr>
            else res)"
  shows "br_effects (buildResponse P opts) = evs @ [Fetch proxy] \<and>
         br_outcome (buildResponse P opts) =
           (case fetch P proxy of
              Inl e \<Rightarrow> Thrown e
            | Inr origin \<Rightarrow> Returned (addMiddlewareHeaders P origin res1)) \<and>
         (\<forall>k v. (k, v) \<in> set (req_headers proxy) \<longrightarrow> \<not> startsWith k ''x-nf-'') \<and>
         (\<forall>k. \<not> startsWith k ''x-nf-'' \<longrightarrow>
              headers_get (req_headers proxy) k = headers_get (req_headers rq) k)"
proof -
  let ?rq1 = "rq\<lparr>req_headers := headers_set (req_headers rq) ''x-nf-next-middleware'' ''skip''\<rparr>"
  have hs: "filter (\<lambda>(k, v). \<not> startsWith k ''x-nf-'')
        (headers_set (req_headers rq) ''x-nf-next-middleware'' ''skip'') =
      filter (\<lambda>(k, v). \<not> startsWith k ''x-nf-'') (req_headers rq)"
    using filter_headers_set [of "\<lambda>n. \<not> startsWith n ''x-nf-''" "''x-nf-next-middleware''"
        "req_headers rq" "''skip''"]
    by simp
  have proxy: "proxy_request ?rq1 rewriteUrl = proxy"
    by (simp add: proxy_request_def hs assms(7))
  have run: "buildPlainResponse P rq res (opt_nextConfig opts) (opt_requestLocale opts) =
      \<lparr>br_outcome = await_merge P (fetch P proxy) res1,
       br_effects = [Fetch proxy],
       br_request_headers = req_headers ?rq1\<rparr>"
    using assms(2-6)
    by (simp add: buildPlainResponse_rewrite rewriteResponse_def Let_def proxy assms(8)
        skip_marker_keeps_data_marker)
  have effs: "br_effects (buildResponse P opts) = evs @ [Fetch proxy]"
    and out: "br_outcome (buildResponse P opts) =
      (case fetch P proxy of
         Inl e \<Rightarrow> Thrown e
       | Inr origin \<Rightarrow> Returned (addMiddlewareHeaders P origin res1))"
    by (simp_all add: buildResponse_plain [OF assms(1)] run await_merge_def)
  have none: "\<forall>k v. (k, v) \<in> set (req_headers proxy) \<longrightarrow> \<not> startsWith k ''x-nf-''"
    unfolding assms(7) by auto
  have kept: "\<forall>k. \<not> startsWith k ''x-nf-'' \<longrightarrow>
      headers_get (req_headers proxy) k = headers_get (req_headers rq) k"
    unfolding assms(7) by (simp add: headers_get_filter)
  from effs out none kept show ?thesis by blast
qed

theorem proxy_request_drops_internal_headers_witness:
  "br_effects (buildResponse sample_platform
      (plain_options sample_request [(''x-middleware-rewrite'', ''https://cdn.example/docs'')] None)) =
     [Fetch \<lparr>req_url = cdn_url, req_method = ''GET'', req_headers = [(''accept'', ''text/html'')],
        req_body = None, req_bodyUsed = False\<rparr>] \<and>
   br_outcome (buildResponse sample_platform
      (plain_options sample_request [(''x-middleware-rewrite'', ''https://cdn.example/docs'')] None)) =
     Returned \<lparr>resp_status = 200,
       resp_headers = [(''content-type'', ''text/html''),
         (''x-middleware-rewrite'', ''https://cdn.example/docs'')],
       resp_body = ''<p>/docs</p>''\<rparr>"
proof -
  let ?res = "\<lparr>resp_status = 200,
    resp_headers = [(''x-middleware-rewrite'', ''https://cdn.example/docs'')], resp_body = []\<rparr>"
  let ?opts = "plain_options sample_request
    [(''x-middleware-rewrite'', ''https://cdn.example/docs'')] None"
  have h1: "prepare sample_platform ?opts = (sample_request, [], Inr (PlainResponse ?res))"
    by (simp add: prepare_def plain_options_def sample_platform_def)
  have h2: "headers_get (resp_headers ?res) ''x-middleware-rewrite'' = Some ''https://cdn.example/docs''"
    by (simp add: headers_get_def)
  have h3: "''https://cdn.example/docs'' \<noteq> []" by simp
  have h4: "resolveURL sample_platform ''https://cdn.example/docs'' (req_url sample_request) =
      Some cdn_url"
    by (simp add: sample_platform_def sample_resolveURL_def)
  have h5: "url_toString cdn_url \<noteq> url_toString (req_url sample_request)"
    by (simp add: url_toString_def cdn_url_def sample_request_def sample_url_def)
  have h6: "url_origin cdn_url \<noteq> url_origin (req_url sample_request)"
    by (simp add: url_origin_def cdn_url_def sample_request_def sample_url_def)
  from proxy_request_drops_internal_headers [OF h1 h2 h3 h4 h5 h6 refl refl]
  show ?thesis
    by (simp add: sample_request_def headers_has_def sample_platform_def sample_page_def
        sample_merge_def cdn_url_def)
qed

subsection \<open>C5: a rewrite inside the site\<close>

lemma map_of_merge_headers:
  "map_of (merge_headers ms hs) k = (case map_of ms k of None \<Rightarrow> map_of hs k | Some v \<Rightarrow> Some v)"
  by (induction ms) (auto simp: map_of_headers_set)

lemma sample_merge_get:
  "headers_get (resp_headers mw) k = Some v \<Longrightarrow>
   headers_get (resp_headers (sample_merge origin mw)) k = Some v"
  by (simp add: sample_merge_def headers_get_def map_of_merge_headers)



subsection \<open>C2: the calls to fetch\<close>

lemma prepare_effects:
  "prepare P opts = (rq, evs, r) \<Longrightarrow> evs = [] \<or> evs = [MiddlewareNext]"
  by (auto simp: prepare_def Let_def split: middleware_result.splits prod.splits)

lemma rewriteResponse_effects:
  "br_effects (rewriteResponse P rq res cfg d rewrite) = [] \<or>
   (\<exists>q rewriteUrl. br_effects (rewriteResponse P rq res cfg d rewrite) = [Fetch q] \<and>
      resolveURL P rewrite (req_url rq) = Some rewriteUrl \<and>
      url_toString rewriteUrl \<noteq> url_toString (req_url rq) \<and>
      url_origin (req_url q) = url_origin rewriteUrl)"
  by (auto simp: rewriteResponse_def Let_def proxy_request_def url_origin_def
      split: option.splits)

lemma finishResponse_effects:
  "snd (finishResponse P res) = [] \<or> snd (finishResponse P res) = [ContextNext]"
  by (simp add: finishResponse_def)

lemma buildPlainResponse_effects:
  "br_effects (buildPlainResponse P rq res cfg loc) = [] \<or>
   br_effects (buildPlainResponse P rq res cfg loc) = [ContextNext] \<or>
   (\<exists>q rewrite rewriteUrl. br_effects (buildPlainResponse P rq res cfg loc) = [Fetch q] \<and>
      headers_get (resp_headers res) ''x-middleware-rewrite'' = Some rewrite \<and> rewrite \<noteq> [] \<and>
      resolveURL P rewrite (req_url rq) = Some rewriteUrl \<and>
      url_toString rewriteUrl \<noteq> url_toString (req_url rq) \<and>
      url_origin (req_url q) = url_origin rewriteUrl)"
proof (cases "truthy (headers_get (resp_headers res) ''x-middleware-rewrite'')")
  case True
  then obtain rewrite where rw: "headers_get (resp_headers res) ''x-middleware-rewrite'' = Some rewrite"
    "rewrite \<noteq> []"
    by (cases "headers_get (resp_headers res) ''x-middleware-rewrite''") auto
  let ?rq1 = "rq\<lparr>req_headers := headers_set (req_headers rq) ''x-nf-next-middleware'' ''skip''\<rparr>"
  from rewriteResponse_effects [of P ?rq1 res cfg
      "headers_has (headers_set (req_headers rq) ''x-nf-next-middleware'' ''skip'') ''x-nextjs-data''"
      rewrite] rw
  show ?thesis by (auto simp: buildPlainResponse_rewrite)
next
  case False
  show ?thesis
  proof (cases "localizeRedirect P
      (rq\<lparr>req_headers := headers_set (req_headers rq) ''x-nf-next-middleware'' ''skip''\<rparr>)
      res cfg loc")
    case (Inl e)
    with False show ?thesis by (simp add: buildPlainResponse_def Let_def)
  next
    case (Inr p)
    obtain redirect res1 where p: "p = (redirect, res1)" by (cases p)
    from finishResponse_effects [of P "dataRedirect P
        (rq\<lparr>req_headers := headers_set (req_headers rq) ''x-nf-next-middleware'' ''skip''\<rparr>)
        (headers_has (headers_set (req_headers rq) ''x-nf-next-middleware'' ''skip'') ''x-nextjs-data'')
        redirect res1"]
    show ?thesis using False Inr p
      by (auto simp: buildPlainResponse_def Let_def split: prod.splits)
  qed
qed

text \<open>
  Claim C2 says that a fetch occurs only when a rewrite goes to another origin. A rewrite
  that stays on the request's origin is fetched as well (line 170).
\<close>

theorem same_origin_rewrite_is_fetched:
  "br_effects (buildResponse sample_platform
      (plain_options sample_request [(''x-middleware-rewrite'', ''/en/cart'')] None)) =
     [Fetch (sample_request
        \<lparr>req_url := sample_url\<lparr>url_pathname := ''/en/cart''\<rparr>,
         req_headers := [(''accept'', ''text/html''), (''x-nf-request-id'', ''01HZ''),
           (''x-nf-next-middleware'', ''skip''), (''x-middleware-rewrite'', ''/en/cart'')]\<rparr>)] \<and>
   url_origin (sample_url\<lparr>url_pathname := ''/en/cart''\<rparr>) = url_origin (req_url sample_request)"
  by (simp add: buildResponse_def prepare_def plain_options_def sample_platform_def
      buildPlainResponse_def rewriteResponse_def sample_resolveURL_def Let_def
      sample_request_def sample_url_def headers_get_def headers_has_def url_toString_def
      url_origin_def)

text \<open>
  C2, as amended. One invocation of \<open>buildResponse\<close> calls \<open>fetch\<close> at most once. It calls
  \<open>fetch\<close> only when the response being built is a plain response with a non-empty
  \<open>x-middleware-rewrite\<close> header whose resolved target differs from the request URL; the
  fetched URL then has the origin of that target. That covers the proxied rewrite to
  another origin and the rewrite that stays on the request's origin.
\<close>

theorem fetch_only_for_rewrites:
  "length (filter is_fetch (br_effects (buildResponse P opts))) \<le> 1 \<and>
   (\<forall>q. Fetch q \<in> set (br_effects (buildResponse P opts)) \<longrightarrow>
      (\<exists>rq evs res rewrite rewriteUrl.
         prepare P opts = (rq, evs, Inr (PlainResponse res)) \<and>
         headers_get (resp_headers res) ''x-middleware-rewrite'' = Some rewrite \<and>
         rewrite \<noteq> [] \<and>
         resolveURL P rewrite (req_url rq) = Some rewriteUrl \<and>
         url_toString rewriteUrl \<noteq> url_toString (req_url rq) \<and>
         url_origin (req_url q) = url_origin rewriteUrl))"
proof -
  obtain rq evs r where prep: "prepare P opts = (rq, evs, r)"
    by (cases "prepare P opts")
  from prepare_effects [OF prep] have evs: "evs = [] \<or> evs = [MiddlewareNext]" .
  show ?thesis
  proof (cases r)
    case (Inl e)
    with prep evs show ?thesis by (auto simp: buildResponse_def)
  next
    case (Inr hr)
    show ?thesis
    proof (cases hr)
      case (MiddlewareResponse m)
      with prep evs Inr show ?thesis by (auto simp: buildResponse_def)
    next
      case (PlainResponse res)
      with prep Inr have prep': "prepare P opts = (rq, evs, Inr (PlainResponse res))" by simp
      from buildPlainResponse_effects [of P rq res "opt_nextConfig opts" "opt_requestLocale opts"]
      show ?thesis using evs
        by (auto simp: buildResponse_plain [OF prep'] prep')
    qed
  qed
qed

theorem fetch_only_for_rewrites_witness:
  "length (filter is_fetch (br_effects (buildResponse sample_platform
      (plain_options sample_request [(''x-middleware-rewrite'', ''https://cdn.example/docs'')] None)))) = 1 \<and>
   length (filter is_fetch (br_effects (buildResponse sample_platform
      (plain_options sample_request [(''x-middleware-next'', ''1'')] None)))) = 0 \<and>
   (\<exists>rq evs res rewrite rewriteUrl.
      prepare sample_platform
        (plain_options sample_request [(''x-middleware-rewrite'', ''https://cdn.example/docs'')] None) =
        (rq, evs, Inr (PlainResponse res)) \<and>
      headers_get (resp_headers res) ''x-middleware-rewrite'' = Some rewrite \<and>
      rewrite \<noteq> [] \<and>
      resolveURL sample_platform rewrite (req_url rq) = Some rewriteUrl \<and>
      url_toString rewriteUrl \<noteq> url_toString (req_url rq) \<and>
      url_origin cdn_url = url_origin rewriteUrl)"
proof -
  let ?opts = "plain_options sample_request
    [(''x-middleware-rewrite'', ''https://cdn.example/docs'')] None"
  let ?q = "proxy_request
    (sample_request\<lparr>req_headers :=
       headers_set (req_headers sample_request) ''x-nf-next-middleware'' ''skip''\<rparr>) cdn_url"
  have effs: "br_effects (buildResponse sample_platform ?opts) = [Fetch ?q]"
    by (simp add: buildResponse_def prepare_def plain_options_def sample_platform_def
        buildPlainResponse_def rewriteResponse_def sample_resolveURL_def Let_def
        sample_request_def sample_url_def headers_get_def headers_has_def url_toString_def
        url_origin_def cdn_url_def)
  have none: "br_effects (buildResponse sample_platform
      (plain_options sample_request [(''x-middleware-next'', ''1'')] None)) = [ContextNext]"
    by (simp add: buildResponse_def prepare_def plain_options_def sample_platform_def
        buildPlainResponse_def localizeRedirect_def dataRedirect_def finishResponse_def
        Let_def sample_request_def headers_get_def headers_has_def)
  have url: "req_url ?q = cdn_url" by (simp add: proxy_request_def)
  from fetch_only_for_rewrites [of sample_platform ?opts] effs url
  show ?thesis by (simp add: none) 
qed

subsection \<open>Unfolding the redirect steps\<close>

lemma localizeRedirect_headers_irrelevant:
  "localizeRedirect P (rq\<lparr>req_headers := hs\<rparr>) res cfg loc = localizeRedirect P rq res cfg loc"
  by (simp add: localizeRedirect_def split: option.splits)

lemma dataRedirect_headers_irrelevant:
  "dataRedirect P (rq\<lparr>req_headers := hs\<rparr>) d redirect res = dataRedirect P rq d redirect res"
  by (simp add: dataRedirect_def Let_def split: option.splits)

lemma buildPlainResponse_redirect:
  assumes "\<not> truthy (headers_get (resp_headers res) ''x-middleware-rewrite'')"
    and "localizeRedirect P rq res cfg loc = Inr (redirect, res1)"
  shows "buildPlainResponse P rq res cfg loc =
     \<lparr>br_outcome =
        fst (finishResponse P
          (dataRedirect P rq (headers_has (req_headers rq) ''x-nextjs-data'') redirect res1)),
      br_effects =
        snd (finishResponse P
          (dataRedirect P rq (headers_has (req_headers rq) ''x-nextjs-data'') redirect res1)),
      br_request_headers = headers_set (req_headers rq) ''x-nf-next-middleware'' ''skip''\<rparr>"
  using assms
  by (simp add: buildPlainResponse_def Let_def localizeRedirect_headers_irrelevant
      dataRedirect_headers_irrelevant skip_marker_keeps_data_marker split: prod.splits)

lemma localizeRedirect_other_headers:
  assumes "localizeRedirect P rq res cfg loc = Inr (redirect, res1)"
    and "k \<noteq> ''location''"
  shows "headers_get (resp_headers res1) k = headers_get (resp_headers res) k"
  using assms
  by (auto simp: localizeRedirect_def Let_def headers_get_set
      split: option.splits if_splits)

lemma dataRedirect_plain_navigation:
  "dataRedirect P rq False redirect res = res"
  by (simp add: dataRedirect_def split: option.splits)

subsection \<open>C4: the locale of a redirect\<close>

text \<open>
  C4. Let the response being built be a plain response without a rewrite, with a
  non-empty \<open>location\<close> header, and let a non-empty \<open>requestLocale\<close> be given. Let
  \<open>normalized\<close> be what \<open>normalizeLocalePath\<close> makes of the path of the resolved redirect
  URL, and \<open>locale\<close> the locale it detected there or else \<open>requestLocale\<close>. If the redirect
  path does not start with \<open>/api/\<close>, the path of the redirect URL becomes
  \<open>/\<close> + \<open>locale\<close> + the normalized path, the \<open>location\<close> header is set to that URL, and the
  remaining steps run on it; if it does, redirect and response are left as they are.
  For a request that is not a data request and a response that does not ask for
  \<open>next()\<close>, the response so changed is what \<open>buildResponse\<close> returns.
\<close>

theorem redirect_path_gets_locale:
  assumes "prepare P opts = (rq, evs, Inr (PlainResponse res))"
    and "\<not> truthy (headers_get (resp_headers res) ''x-middleware-rewrite'')"
    and "headers_get (resp_headers res) ''location'' = Some redirect"
    and "redirect \<noteq> []"
    and "opt_requestLocale opts = Some requested"
    and "requested \<noteq> []"
    and "resolveURL P redirect (req_url rq) = Some redirectUrl"
    and "normalizeLocalePath P (url_pathname redirectUrl) (config_locales (opt_nextConfig opts)) =
           normalized"
    and "detectedLocale normalized \<noteq> Some []"
    and "locale = (case detectedLocale normalized of Some detected \<Rightarrow> detected | None \<Rightarrow> requested)"
    and "spliced =
           url_toString (redirectUrl\<lparr>url_pathname := ''/'' @ locale @ pl_pathname normalized\<rparr>)"
    and "localized = res\<lparr>resp_headers := headers_set (resp_headers res) ''location'' spliced\<rparr>"
    and "isDataReq = headers_has (req_headers rq) ''x-nextjs-data''"
  shows "(if startsWith (url_pathname redirectUrl) ''/api/'' then
            br_outcome (buildResponse P opts) =
              fst (finishResponse P (dataRedirect P rq isDataReq (Some redirect) res))
          else
            br_outcome (buildResponse P opts) =
              fst (finishResponse P (dataRedirect P rq isDataReq (Some spliced) localized)) \<and>
            headers_get (resp_headers localized) ''location'' = Some spliced) \<and>
         (\<not> isDataReq \<and> headers_get (resp_headers res) ''x-middleware-next'' \<noteq> Some ''1'' \<longrightarrow>
            br_outcome (buildResponse P opts) =
              Returned (if startsWith (url_pathname redirectUrl) ''/api/'' then res else localized))"
proof -
  have loc_ne: "locale \<noteq> []"
    using assms(6,9,10) by (cases "detectedLocale normalized") auto
  have step: "localizeRedirect P rq res (opt_nextConfig opts) (opt_requestLocale opts) =
      Inr (if startsWith (url_pathname redirectUrl) ''/api/'' then (Some redirect, res)
           else (Some spliced, localized))"
    using assms(3-8,10-12) loc_ne by (simp add: localizeRedirect_def Let_def)
  have next_same: "headers_get (resp_headers localized) ''x-middleware-next'' =
      headers_get (resp_headers res) ''x-middleware-next''"
    using assms(12) by (simp add: headers_get_set)
  show ?thesis
  proof (cases "startsWith (url_pathname redirectUrl) ''/api/''")
    case True
    with step have "localizeRedirect P rq res (opt_nextConfig opts) (opt_requestLocale opts) =
      Inr (Some redirect, res)" by simp
    from buildPlainResponse_redirect [OF assms(2) this] True assms(13)
    show ?thesis
      by (simp add: buildResponse_plain [OF assms(1)] dataRedirect_plain_navigation
          finishResponse_def)
  next
    case False
    with step have "localizeRedirect P rq res (opt_nextConfig opts) (opt_requestLocale opts) =
      Inr (Some spliced, localized)" by simp
    from buildPlainResponse_redirect [OF assms(2) this] False assms(13) next_same
    show ?thesis
      by (simp add: buildResponse_plain [OF assms(1)] dataRedirect_plain_navigation
          finishResponse_def assms(12) headers_get_set)
  qed
qed

theorem redirect_path_gets_locale_witness:
  "br_outcome (buildResponse sample_platform
      (plain_options sample_request [(''location'', ''/fr/sale'')] (Some ''en''))) =
     Returned \<lparr>resp_status = 200,
       resp_headers = [(''location'', ''https://shop.example/fr/sale'')], resp_body = []\<rparr> \<and>
   br_outcome (buildResponse sample_platform
      (plain_options sample_request [(''location'', ''/sale'')] (Some ''en''))) =
     Returned \<lparr>resp_status = 200,
       resp_headers = [(''location'', ''https://shop.example/en/sale'')], resp_body = []\<rparr>"
proof -
  let ?res = "\<lambda>target. \<lparr>resp_status = 200, resp_headers = [(''location'', target)], resp_body = []\<rparr>"
  let ?opts = "\<lambda>target. plain_options sample_request [(''location'', target)] (Some ''en'')"
  have h1: "prepare sample_platform (?opts target) = (sample_request, [], Inr (PlainResponse (?res target)))"
    for target
    by (simp add: prepare_def plain_options_def sample_platform_def)
  have h2: "\<not> truthy (headers_get (resp_headers (?res target)) ''x-middleware-rewrite'')" for target
    by (simp add: headers_get_def)
  have h3: "headers_get (resp_headers (?res target)) ''location'' = Some target" for target
    by (simp add: headers_get_def)
  have h5: "opt_requestLocale (?opts target) = Some ''en''" for target
    by (simp add: plain_options_def)
  have h7: "resolveURL sample_platform ''/fr/sale'' (req_url sample_request) =
      Some (sample_url\<lparr>url_pathname := ''/fr/sale''\<rparr>)"
    "resolveURL sample_platform ''/sale'' (req_url sample_request) =
      Some (sample_url\<lparr>url_pathname := ''/sale''\<rparr>)"
    by (simp_all add: sample_platform_def sample_resolveURL_def sample_request_def sample_url_def)
  have h8: "normalizeLocalePath sample_platform (url_pathname (sample_url\<lparr>url_pathname := ''/fr/sale''\<rparr>))
        (config_locales (opt_nextConfig (?opts ''/fr/sale''))) =
      \<lparr>detectedLocale = Some ''fr'', pl_pathname = ''/sale''\<rparr>"
    "normalizeLocalePath sample_platform (url_pathname (sample_url\<lparr>url_pathname := ''/sale''\<rparr>))
        (config_locales (opt_nextConfig (?opts ''/sale''))) =
      \<lparr>detectedLocale = None, pl_pathname = ''/sale''\<rparr>"
    by (simp_all add: sample_platform_def sample_normalizeLocalePath_def plain_options_def
        config_locales_def sample_config_def)
  have nodata: "\<not> headers_has (req_headers sample_request) ''x-nextjs-data''"
    by (simp add: headers_has_def sample_request_def)
  from redirect_path_gets_locale [OF h1 h2 h3 _ h5 _ h7(1) h8(1) _ refl refl refl refl] nodata
  have a: "br_outcome (buildResponse sample_platform (?opts ''/fr/sale'')) =
      Returned (?res ''https://shop.example/fr/sale'')"
    by (simp add: headers_get_def headers_delete_def url_toString_def sample_url_def
        dataRedirect_def finishResponse_def)
  from redirect_path_gets_locale [OF h1 h2 h3 _ h5 _ h7(2) h8(2) _ refl refl refl refl] nodata
  have b: "br_outcome (buildResponse sample_platform (?opts ''/sale'')) =
      Returned (?res ''https://shop.example/en/sale'')"
    by (simp add: headers_get_def headers_delete_def url_toString_def sample_url_def
        dataRedirect_def finishResponse_def)
  from a b show ?thesis by simp
qed

subsection \<open>C6: the redirect of a data request\<close>

text \<open>
  C6. Let the response being built be a plain response without a rewrite, let the request
  have the \<open>x-nextjs-data\<close> header, and let \<open>redirect\<close> be the non-empty redirect target
  after the locale step (\<open>localizeRedirect\<close> yields it together with the response \<open>res1\<close>).
  Provided \<open>relativizeURL\<close> returns a non-empty string, the response that goes into the
  last step is \<open>res2\<close>: \<open>res1\<close> with the \<open>location\<close> header deleted and the
  \<open>x-nextjs-redirect\<close> header set to \<open>normalizeDataUrl\<close> of \<open>redirect\<close> relativized against
  the request URL, and with nothing else changed. \<open>res2\<close> is what is returned, unless
  \<open>x-middleware-next\<close> is \<open>1\<close>; then it is merged onto the continued response.
\<close>

theorem data_request_redirect_moves_to_header:
  assumes "prepare P opts = (rq, evs, Inr (PlainResponse res))"
    and "\<not> truthy (headers_get (resp_headers res) ''x-middleware-rewrite'')"
    and "headers_has (req_headers rq) ''x-nextjs-data''"
    and "localizeRedirect P rq res (opt_nextConfig opts) (opt_requestLocale opts) =
           Inr (Some redirect, res1)"
    and "redirect \<noteq> []"
    and "relative = relativizeURL P redirect (url_toString (req_url rq))"
    and "relative \<noteq> []"
    and "res2 =
           res1\<lparr>resp_headers :=
                  headers_set (headers_delete (resp_headers res1) ''location'')
                    ''x-nextjs-redirect'' (normalizeDataUrl P relative)\<rparr>"
  shows "headers_get (resp_headers res2) ''location'' = None \<and>
         headers_get (resp_headers res2) ''x-nextjs-redirect'' = Some (normalizeDataUrl P relative) \<and>
         br_outcome (buildResponse P opts) =
           (if headers_get (resp_headers res) ''x-middleware-next'' = Some ''1'' then
              (case context_next P of
                 Inl e \<Rightarrow> Thrown e
               | Inr continued \<Rightarrow>
                   Returned (addMiddlewareHeaders P continued
                     (res2\<lparr>resp_headers := headers_delete (resp_headers res2) ''x-middleware-next''\<rparr>)))
            else Returned res2)"
proof -
  have shape: "dataRedirect P rq True (Some redirect) res1 = res2"
    using assms(5,7)
    by (simp add: dataRedirect_def Let_def headers_get_set headers_set_twice
        assms(6) [symmetric] assms(8))
  have loc: "headers_get (resp_headers res2) ''location'' = None"
    by (simp add: assms(8) headers_get_set headers_get_delete)
  have nr: "headers_get (resp_headers res2) ''x-nextjs-redirect'' = Some (normalizeDataUrl P relative)"
    by (simp add: assms(8) headers_get_set)
  have nx: "headers_get (resp_headers res2) ''x-middleware-next'' =
      headers_get (resp_headers res) ''x-middleware-next''"
    using localizeRedirect_other_headers [OF assms(4), of "''x-middleware-next''"]
    by (simp add: assms(8) headers_get_set headers_get_delete)
  have out: "br_outcome (buildResponse P opts) = fst (finishResponse P res2)"
    using buildPlainResponse_redirect [OF assms(2,4)] assms(3) shape
    by (simp add: buildResponse_plain [OF assms(1)])
  have "br_outcome (buildResponse P opts) =
      (if headers_get (resp_headers res) ''x-middleware-next'' = Some ''1'' then
         (case context_next P of
            Inl e \<Rightarrow> Thrown e
          | Inr continued \<Rightarrow>
              Returned (addMiddlewareHeaders P continued
                (res2\<lparr>resp_headers := headers_delete (resp_headers res2) ''x-middleware-next''\<rparr>)))
       else Returned res2)"
    using nx by (simp add: out finishResponse_def await_merge_def)
  with loc nr show ?thesis by blast
qed

theorem data_request_redirect_moves_to_header_witness:
  "br_outcome (buildResponse sample_platform
      (plain_options data_request
         [(''location'', ''/_next/data/build/sale''), (''x-powered-by'', ''edge'')] None)) =
     Returned \<lparr>resp_status = 200,
       resp_headers = [(''x-powered-by'', ''edge''), (''x-nextjs-redirect'', ''/sale'')],
       resp_body = []\<rparr>"
proof -
  let ?res = "\<lparr>resp_status = 200,
    resp_headers = [(''location'', ''/_next/data/build/sale''), (''x-powered-by'', ''edge'')],
    resp_body = []\<rparr>"
  let ?opts = "plain_options data_request
    [(''location'', ''/_next/data/build/sale''), (''x-powered-by'', ''edge'')] None"
  have h1: "prepare sample_platform ?opts = (data_request, [], Inr (PlainResponse ?res))"
    by (simp add: prepare_def plain_options_def sample_platform_def)
  have h2: "\<not> truthy (headers_get (resp_headers ?res) ''x-middleware-rewrite'')"
    by (simp add: headers_get_def)
  have h3: "headers_has (req_headers data_request) ''x-nextjs-data''"
    by (simp add: headers_has_def data_request_def)
  have h4: "localizeRedirect sample_platform data_request ?res (opt_nextConfig ?opts)
      (opt_requestLocale ?opts) = Inr (Some ''/_next/data/build/sale'', ?res)"
    by (simp add: localizeRedirect_def plain_options_def headers_get_def)
  have h5: "''/_next/data/build/sale'' \<noteq> []" by simp
  have rel: "relativizeURL sample_platform ''/_next/data/build/sale''
      (url_toString (req_url data_request)) = ''/_next/data/build/sale''"
    by (simp add: sample_platform_def sample_relativizeURL_def)
  have h7: "relativizeURL sample_platform ''/_next/data/build/sale''
      (url_toString (req_url data_request)) \<noteq> []"
    unfolding rel by simp
  have nd: "normalizeDataUrl sample_platform ''/_next/data/build/sale'' = ''/sale''"
    by (simp add: sample_platform_def)
  from data_request_redirect_moves_to_header [OF h1 h2 h3 h4 h5 refl h7 refl]
  show ?thesis
    unfolding rel nd by (simp add: headers_get_def headers_delete_def)
qed

subsection \<open>C7: handing over to the platform\<close>

text \<open>
  C7. Let the response being built be a plain response without a rewrite whose
  \<open>x-middleware-next\<close> header is \<open>1\<close>, and let the redirect steps go through (\<open>res2\<close> is
  the response they leave; it is the response itself when there is neither a \<open>location\<close>
  nor an \<open>x-nextjs-redirect\<close> header). Then \<open>buildResponse\<close> calls \<open>context.next()\<close>, once and
  as its only call, and returns \<open>addMiddlewareHeaders\<close> of the continued response and of
  \<open>res2\<close> without its \<open>x-middleware-next\<close> header, not the response itself. A rejection
  of \<open>context.next()\<close> is passed on.
\<close>

theorem next_marker_delegates_to_context:
  assumes "prepare P opts = (rq, evs, Inr (PlainResponse res))"
    and "\<not> truthy (headers_get (resp_headers res) ''x-middleware-rewrite'')"
    and "headers_get (resp_headers res) ''x-middleware-next'' = Some ''1''"
    and "localizeRedirect P rq res (opt_nextConfig opts) (opt_requestLocale opts) =
           Inr (redirect, res1)"
    and "res2 = dataRedirect P rq (headers_has (req_headers rq) ''x-nextjs-data'') redirect res1"
    and "merged = res2\<lparr>resp_headers := headers_delete (resp_headers res2) ''x-middleware-next''\<rparr>"
  shows "br_effects (buildResponse P opts) = evs @ [ContextNext] \<and>
         br_outcome (buildResponse P opts) =
           (case context_next P of
              Inl e \<Rightarrow> Thrown e
            | Inr continued \<Rightarrow> Returned (addMiddlewareHeaders P continued merged)) \<and>
         headers_get (resp_headers merged) ''x-middleware-next'' = None \<and>
         (headers_get (resp_headers res) ''location'' = None \<and>
          headers_get (resp_headers res) ''x-nextjs-redirect'' = None \<longrightarrow> res2 = res)"
proof -
  have other: "headers_get (resp_headers (dataRedirect P rq d redirect res1)) ''x-middleware-next'' =
      headers_get (resp_headers res1) ''x-middleware-next''" for d
    by (simp add: dataRedirect_def Let_def headers_get_set headers_get_delete
        split: option.splits)
  have nx: "headers_get (resp_headers res2) ''x-middleware-next'' = Some ''1''"
    using localizeRedirect_other_headers [OF assms(4), of "''x-middleware-next''"] assms(3,5)
    by (simp add: other)
  have fin: "finishResponse P res2 = (await_merge P (context_next P) merged, [ContextNext])"
    using nx assms(6) by (simp add: finishResponse_def)
  have run: "br_effects (buildResponse P opts) = evs @ [ContextNext]"
    "br_outcome (buildResponse P opts) = await_merge P (context_next P) merged"
    using buildPlainResponse_redirect [OF assms(2,4)] fin assms(5)
    by (simp_all add: buildResponse_plain [OF assms(1)])
  have gone: "headers_get (resp_headers merged) ''x-middleware-next'' = None"
    using assms(6) by (simp add: headers_get_delete)
  have same: "headers_get (resp_headers res) ''location'' = None \<and>
      headers_get (resp_headers res) ''x-nextjs-redirect'' = None \<longrightarrow> res2 = res"
    using assms(4,5)
    by (auto simp: localizeRedirect_def dataRedirect_def Let_def split: option.splits)
  from run gone same show ?thesis by (simp add: await_merge_def)
qed

theorem next_marker_delegates_to_context_witness:
  "br_effects (buildResponse sample_platform
      (plain_options sample_request [(''x-middleware-next'', ''1''), (''x-powered-by'', ''edge'')] None)) =
     [ContextNext] \<and>
   br_outcome (buildResponse sample_platform
      (plain_options sample_request [(''x-middleware-next'', ''1''), (''x-powered-by'', ''edge'')] None)) =
     Returned \<lparr>resp_status = 200,
       resp_headers = [(''content-type'', ''text/html''), (''x-powered-by'', ''edge'')],
       resp_body = ''<p>origin</p>''\<rparr>"
proof -
  let ?res = "\<lparr>resp_status = 200,
    resp_headers = [(''x-middleware-next'', ''1''), (''x-powered-by'', ''edge'')], resp_body = []\<rparr>"
  let ?opts = "plain_options sample_request
    [(''x-middleware-next'', ''1''), (''x-powered-by'', ''edge'')] None"
  have h1: "prepare sample_platform ?opts = (sample_request, [], Inr (PlainResponse ?res))"
    by (simp add: prepare_def plain_options_def sample_platform_def)
  have h2: "\<not> truthy (headers_get (resp_headers ?res) ''x-middleware-rewrite'')"
    by (simp add: headers_get_def)
  have h3: "headers_get (resp_headers ?res) ''x-middleware-next'' = Some ''1''"
    by (simp add: headers_get_def)
  have h4: "localizeRedirect sample_platform sample_request ?res (opt_nextConfig ?opts)
      (opt_requestLocale ?opts) = Inr (None, ?res)"
    by (simp add: localizeRedirect_def plain_options_def headers_get_def)
  have h5: "?res = dataRedirect sample_platform sample_request
      (headers_has (req_headers sample_request) ''x-nextjs-data'') None ?res"
    by (simp add: dataRedirect_def headers_get_def)
  from next_marker_delegates_to_context [OF h1 h2 h3 h4 h5 refl]
  show ?thesis
    by (simp add: sample_platform_def sample_merge_def headers_delete_def)
qed

subsection \<open>C8: the data transforms of a middleware response\<close>

lemma buildResponse_middleware:
  "prepare P opts = (rq, evs, Inr (MiddlewareResponse m)) \<Longrightarrow>
   br_outcome (buildResponse P opts) = buildMiddlewareResponse P rq m"
  by (simp add: buildResponse_def)

lemma copy_cookies_body: "resp_body (copy_cookies m) = resp_body (originResponse m)"
  by (simp add: copy_cookies_def split: option.splits)

lemma feed_chunks_nextDataText:
  "\<forall>x \<in> set cs. \<not> lastInTextNode x \<Longrightarrow> lastInTextNode c \<Longrightarrow>
   feed_chunks (nextDataText P ts) buffer (cs @ [c]) =
     (buffer @ concat (map chunk_text (cs @ [c])),
      replicate (length cs) Remove @
        [replaceNextData P ts (buffer @ concat (map chunk_text (cs @ [c])))])"
proof (induction cs arbitrary: buffer)
  case Nil
  then show ?case by (simp add: nextDataText_def Let_def)
next
  case (Cons x cs)
  from Cons.prems have x: "\<not> lastInTextNode x" and rest: "\<forall>y \<in> set cs. \<not> lastInTextNode y"
    by simp_all
  from x have step: "nextDataText P ts buffer x = (buffer @ chunk_text x, Remove)"
    by (simp add: nextDataText_def Let_def)
  from Cons.IH [OF rest Cons.prems(2), of "buffer @ chunk_text x"] step
  show ?case by simp
qed

text \<open>
  Claim C8 says the transforms are applied for every middleware response that has some.
  A \<open>HEAD\<close> or \<open>OPTIONS\<close> request gets the origin response back untouched (lines 45 to
  47): here the body stays the JSON text of the origin although the transforms would
  change it.
\<close>

theorem head_request_skips_transforms:
  "br_outcome (buildResponse sample_platform (mw_options ''HEAD'' json_mw)) =
     Returned (originResponse json_mw) \<and>
   resp_body (originResponse json_mw) = ''{'' @ quoted ''n'' @ '':1}'' \<and>
   dataTransforms json_mw = [set_n 2, set_n 3] \<and>
   json_parse sample_platform (resp_body (originResponse json_mw)) = Some (JObj [(''n'', JNum 1)]) \<and>
   json_stringify sample_platform
     (foldl (\<lambda>prev transform. transform prev) (JObj [(''n'', JNum 1)]) (dataTransforms json_mw)) =
     ''{'' @ quoted ''n'' @ '':3}''"
  by (simp add: buildResponse_def prepare_def mw_options_def sample_platform_def
      buildMiddlewareResponse_def json_mw_def props_text_def sample_parse_def set_n_def
      quoted_def page_data_text_def digit_char_def)

text \<open>
  C8, as amended. Let the response being built be a middleware response and the request
  method be neither \<open>HEAD\<close> nor \<open>OPTIONS\<close>.

  If the content type of the origin response includes \<open>application/json\<close>, its body
  parses and the transforms do not end in \<open>undefined\<close>, the returned body is the
  serialisation of the transforms folded from left to right over the parsed body.

  Otherwise, if there is at least one transform, the returned response is the origin
  response run through the rewriter with the text handler on the \<open>__NEXT_DATA__\<close> script
  tag. Fed the chunks of a text node (only the last one marked as last), the handler
  removes all chunks but the last and treats the last with the whole buffered text: if
  the trimmed text does not parse, the chunk is kept without replacement; if it parses
  to an object, the chunk is replaced by the serialisation of that object with its
  \<open>props\<close> field set to the transforms folded from left to right over the old \<open>props\<close>.
\<close>

theorem data_transforms_are_folded:
  assumes "prepare P opts = (rq, evs, Inr (MiddlewareResponse m))"
    and "req_method rq \<noteq> ''HEAD''"
    and "req_method rq \<noteq> ''OPTIONS''"
  shows "(is_json (copy_cookies m) \<longrightarrow>
            (\<forall>props. json_parse P (resp_body (originResponse m)) = Some props \<and>
                 foldl (\<lambda>prev transform. transform prev) props (dataTransforms m) \<noteq> JUndefined \<longrightarrow>
               (\<exists>resp. br_outcome (buildResponse P opts) = Returned resp \<and>
                  resp_body resp =
                    json_stringify P
                      (foldl (\<lambda>prev transform. transform prev) props (dataTransforms m))))) \<and>
         (\<not> is_json (copy_cookies m) \<and> dataTransforms m \<noteq> [] \<longrightarrow>
            br_outcome (buildResponse P opts) =
              Returned (html_transform P (Some (nextDataText P (dataTransforms m)))
                (elementHandlers m) (copy_cookies m))) \<and>
         (\<forall>cs c. (\<forall>x \<in> set cs. \<not> lastInTextNode x) \<and> lastInTextNode c \<longrightarrow>
            feed_chunks (nextDataText P (dataTransforms m)) [] (cs @ [c]) =
              (concat (map chunk_text (cs @ [c])),
               replicate (length cs) Remove @
                 [replaceNextData P (dataTransforms m) (concat (map chunk_text (cs @ [c])))])) \<and>
         (\<forall>buffer. json_parse P (string_trim P buffer) = None \<longrightarrow>
            replaceNextData P (dataTransforms m) buffer = Keep) \<and>
         (\<forall>buffer fs. json_parse P (string_trim P buffer) = Some (JObj fs) \<longrightarrow>
            replaceNextData P (dataTransforms m) buffer =
              Replace (json_stringify P (JObj (object_set fs ''props''
                (foldl (\<lambda>prev transform. transform prev)
                   (case map_of fs ''props'' of None \<Rightarrow> JUndefined | Some v \<Rightarrow> v)
                   (dataTransforms m))))))"
proof (intro conjI)
  note out = buildResponse_middleware [OF assms(1)]
  show "is_json (copy_cookies m) \<longrightarrow>
      (\<forall>props. json_parse P (resp_body (originResponse m)) = Some props \<and>
           foldl (\<lambda>prev transform. transform prev) props (dataTransforms m) \<noteq> JUndefined \<longrightarrow>
         (\<exists>resp. br_outcome (buildResponse P opts) = Returned resp \<and>
            resp_body resp =
              json_stringify P
                (foldl (\<lambda>prev transform. transform prev) props (dataTransforms m))))"
    using assms(2,3)
    by (simp add: out buildMiddlewareResponse_def Let_def copy_cookies_body response_json_def)
  show "\<not> is_json (copy_cookies m) \<and> dataTransforms m \<noteq> [] \<longrightarrow>
      br_outcome (buildResponse P opts) =
        Returned (html_transform P (Some (nextDataText P (dataTransforms m)))
          (elementHandlers m) (copy_cookies m))"
    using assms(2,3) by (simp add: out buildMiddlewareResponse_def Let_def)
  show "\<forall>cs c. (\<forall>x \<in> set cs. \<not> lastInTextNode x) \<and> lastInTextNode c \<longrightarrow>
      feed_chunks (nextDataText P (dataTransforms m)) [] (cs @ [c]) =
        (concat (map chunk_text (cs @ [c])),
         replicate (length cs) Remove @
           [replaceNextData P (dataTransforms m) (concat (map chunk_text (cs @ [c])))])"
    using feed_chunks_nextDataText [of _ _ P "dataTransforms m" "[]"] by simp
  show "\<forall>buffer. json_parse P (string_trim P buffer) = None \<longrightarrow>
      replaceNextData P (dataTransforms m) buffer = Keep"
    by (simp add: replaceNextData_def)
  show "\<forall>buffer fs. json_parse P (string_trim P buffer) = Some (JObj fs) \<longrightarrow>
      replaceNextData P (dataTransforms m) buffer =
        Replace (json_stringify P (JObj (object_set fs ''props''
          (foldl (\<lambda>prev transform. transform prev)
             (case map_of fs ''props'' of None \<Rightarrow> JUndefined | Some v \<Rightarrow> v)
             (dataTransforms m)))))"
    by (simp add: replaceNextData_def Let_def)
qed

theorem data_transforms_are_folded_witness:
  "(\<exists>resp. br_outcome (buildResponse sample_platform (mw_options ''GET'' json_mw)) = Returned resp \<and>
      resp_body resp = ''{'' @ quoted ''n'' @ '':3}'') \<and>
   br_outcome (buildResponse sample_platform (mw_options ''GET'' html_mw)) =
     Returned (html_transform sample_platform
       (Some (nextDataText sample_platform [set_n 2, set_n 3])) [] (originResponse html_mw)) \<and>
   feed_chunks (nextDataText sample_platform (dataTransforms html_mw)) []
     [\<lparr>chunk_text = ''{'' @ quoted ''props'' @ '':{'' @ quoted ''n'', lastInTextNode = False\<rparr>,
      \<lparr>chunk_text = '':1},'' @ quoted ''page'' @ '':'' @ quoted ''/cart'' @ ''}'',
        lastInTextNode = True\<rparr>] =
     (page_data_text,
      [Remove,
       Replace (''{'' @ quoted ''props'' @ '':{'' @ quoted ''n'' @ '':3},'' @
         quoted ''page'' @ '':'' @ quoted ''/cart'' @ ''}'')]) \<and>
   feed_chunks (nextDataText sample_platform (dataTransforms html_mw)) []
     [\<lparr>chunk_text = ''{'' @ quoted ''props'', lastInTextNode = False\<rparr>,
      \<lparr>chunk_text = '':oops'', lastInTextNode = True\<rparr>] =
     (''{'' @ quoted ''props'' @ '':oops'', [Remove, Keep])"
proof -
  have j1: "prepare sample_platform (mw_options ''GET'' json_mw) =
      (sample_request\<lparr>req_method := ''GET''\<rparr>, [], Inr (MiddlewareResponse json_mw))"
    by (simp add: prepare_def mw_options_def sample_platform_def json_mw_def)
  have h1: "prepare sample_platform (mw_options ''GET'' html_mw) =
      (sample_request\<lparr>req_method := ''GET''\<rparr>, [], Inr (MiddlewareResponse html_mw))"
    by (simp add: prepare_def mw_options_def sample_platform_def html_mw_def)
  have m: "req_method (sample_request\<lparr>req_method := ''GET''\<rparr>) \<noteq> ''HEAD''"
    "req_method (sample_request\<lparr>req_method := ''GET''\<rparr>) \<noteq> ''OPTIONS''"
    by simp_all
  note J = data_transforms_are_folded [OF j1 m]
  note H = data_transforms_are_folded [OF h1 m]
  have jj: "is_json (copy_cookies json_mw)"
    by (simp add: is_json_def copy_cookies_def json_mw_def headers_get_def)
  have jp: "json_parse sample_platform (resp_body (originResponse json_mw)) =
      Some (JObj [(''n'', JNum 1)])"
    by (simp add: sample_platform_def sample_parse_def json_mw_def props_text_def
        page_data_text_def quoted_def)
  have jf: "json_stringify sample_platform
      (foldl (\<lambda>prev transform. transform prev) (JObj [(''n'', JNum 1)]) (dataTransforms json_mw)) =
      ''{'' @ quoted ''n'' @ '':3}''"
    by (simp add: sample_platform_def json_mw_def set_n_def quoted_def digit_char_def)
  have jd: "foldl (\<lambda>prev transform. transform prev) (JObj [(''n'', JNum 1)])
      (dataTransforms json_mw) \<noteq> JUndefined"
    by (simp add: json_mw_def set_n_def)
  from J jj jp jd have a: "\<exists>resp. br_outcome (buildResponse sample_platform (mw_options ''GET'' json_mw)) =
      Returned resp \<and> resp_body resp = ''{'' @ quoted ''n'' @ '':3}''"
    unfolding jf [symmetric] by blast
  have hj: "\<not> is_json (copy_cookies html_mw) \<and> dataTransforms html_mw \<noteq> []"
    by (simp add: is_json_def copy_cookies_def html_mw_def headers_get_def)
  from H hj have b0: "br_outcome (buildResponse sample_platform (mw_options ''GET'' html_mw)) =
      Returned (html_transform sample_platform
        (Some (nextDataText sample_platform (dataTransforms html_mw)))
        (elementHandlers html_mw) (copy_cookies html_mw))"
    by blast
  have b: "br_outcome (buildResponse sample_platform (mw_options ''GET'' html_mw)) =
     Returned (html_transform sample_platform
       (Some (nextDataText sample_platform [set_n 2, set_n 3])) [] (originResponse html_mw))"
    unfolding b0 by (simp add: copy_cookies_def html_mw_def)
  have trimmed: "string_trim sample_platform page_data_text = page_data_text"
    by (simp add: sample_platform_def sample_trim_def page_data_text_def quoted_def is_space_def)
  have hp: "json_parse sample_platform (string_trim sample_platform page_data_text) =
      Some (JObj [(''props'', JObj [(''n'', JNum 1)]), (''page'', JStr ''/cart'')])"
    unfolding trimmed
    by (simp add: sample_platform_def sample_parse_def page_data_def)
  have replaced: "replaceNextData sample_platform (dataTransforms html_mw) page_data_text =
      Replace (''{'' @ quoted ''props'' @ '':{'' @ quoted ''n'' @ '':3},'' @
         quoted ''page'' @ '':'' @ quoted ''/cart'' @ ''}'')"
    using H [THEN conjunct2, THEN conjunct2, THEN conjunct2, THEN conjunct2, rule_format, OF hp]
    by (simp add: sample_platform_def html_mw_def set_n_def quoted_def digit_char_def)
  have c1: "feed_chunks (nextDataText sample_platform (dataTransforms html_mw)) []
      ([\<lparr>chunk_text = ''{'' @ quoted ''props'' @ '':{'' @ quoted ''n'', lastInTextNode = False\<rparr>] @
       [\<lparr>chunk_text = '':1},'' @ quoted ''page'' @ '':'' @ quoted ''/cart'' @ ''}'',
          lastInTextNode = True\<rparr>]) =
     (page_data_text,
      [Remove, replaceNextData sample_platform (dataTransforms html_mw) page_data_text])"
    using H [THEN conjunct2, THEN conjunct2, THEN conjunct1, rule_format,
        of "[\<lparr>chunk_text = ''{'' @ quoted ''props'' @ '':{'' @ quoted ''n'', lastInTextNode = False\<rparr>]"
          "\<lparr>chunk_text = '':1},'' @ quoted ''page'' @ '':'' @ quoted ''/cart'' @ ''}'',
             lastInTextNode = True\<rparr>"]
    by (simp add: page_data_text_def)
  have np: "json_parse sample_platform
      (string_trim sample_platform (''{'' @ quoted ''props'' @ '':oops'')) = None"
    by (simp add: sample_platform_def sample_parse_def sample_trim_def page_data_text_def
        props_text_def quoted_def is_space_def)
  have c2: "feed_chunks (nextDataText sample_platform (dataTransforms html_mw)) []
      ([\<lparr>chunk_text = ''{'' @ quoted ''props'', lastInTextNode = False\<rparr>] @
       [\<lparr>chunk_text = '':oops'', lastInTextNode = True\<rparr>]) =
     (''{'' @ quoted ''props'' @ '':oops'',
      [Remove, replaceNextData sample_platform (dataTransforms html_mw)
           (''{'' @ quoted ''props'' @ '':oops'')])"
    using H [THEN conjunct2, THEN conjunct2, THEN conjunct1, rule_format,
        of "[\<lparr>chunk_text = ''{'' @ quoted ''props'', lastInTextNode = False\<rparr>]"
          "\<lparr>chunk_text = '':oops'', lastInTextNode = True\<rparr>"]
    by simp
  from H np have kept: "replaceNextData sample_platform (dataTransforms html_mw)
      (''{'' @ quoted ''props'' @ '':oops'') = Keep"
    by blast
  from a b c1 c2 show ?thesis
    unfolding replaced kept by simp
qed

end
